theory Spec2Isabelle
  imports Main "HOL-Library.Sublist"
begin

section \<open>Values shared by the command handlers of index.js\<close>

text \<open>
  A JavaScript value that has been thrown, or with which a promise was rejected. The
  handlers read two things from it: the field \<^verbatim>\<open>message\<close> (which may be
  undefined) and the string the value converts to inside a template literal.
\<close>

datatype thrown = Thrown (message: "string option") (to_string: string)

text \<open>\<^verbatim>\<open>new Error(msg)\<close>: the message is \<open>msg\<close>, the string form is
  \<^verbatim>\<open>Error: msg\<close>.\<close>

definition new_Error :: "string \<Rightarrow> thrown" where
  "new_Error msg = Thrown (Some msg) (''Error: '' @ msg)"

text \<open>
  How an asynchronous handler ends: it returns (the process then ends with status 0),
  it throws (the rejection reaches the caller), or it calls \<^verbatim>\<open>process.exit(n)\<close>.
\<close>

datatype completion = Returned | Threw thrown | Exited nat

text \<open>One call of \<^verbatim>\<open>console.log\<close> or \<^verbatim>\<open>console.error\<close>, or one line
  that the spinner of \<^verbatim>\<open>oraPromise\<close> leaves on the terminal.\<close>

datatype console_line =
    ConsoleLog string
  | ConsoleError string
  | ConsoleErrorValue thrown
  | OraSucceed string
  | OraFail string

text \<open>The marker U+2042 that starts the notices, as its three UTF-8 bytes.\<close>

definition asterism :: string where
  "asterism = [CHR 0xE2, CHR 0x81, CHR 0x82]"

text \<open>
  What every handler leaves behind: the lines on the terminal, in order, and the state of
  the storage service it talked to. Each handler extends this record with its own
  variables.
\<close>

record 'sv world =
  console :: "console_line list"
  server :: 'sv

text \<open>
  The flags that the command line hands to \<^verbatim>\<open>list\<close>, \<^verbatim>\<open>remove\<close> and
  \<^verbatim>\<open>usageReport\<close>; a flag that is absent is falsy.
\<close>

record opts =
  json :: bool
  shards :: bool
  human :: bool

text \<open>
  A non-negative integer in a template literal: its decimal digits. \<open>show_int\<close> is the
  same for a JavaScript number that holds an integer of magnitude below 10 to the power
  21, from where on JavaScript prints an exponent.
\<close>

definition digit :: "nat \<Rightarrow> char" where
  "digit d = ''0123456789'' ! d"

fun show_nat :: "nat \<Rightarrow> string" where
  "show_nat n =
     (if n < 10 then [digit n]
      else show_nat (n div 10) @ [digit (n mod 10)])"

declare show_nat.simps [simp del]

definition show_int :: "int \<Rightarrow> string" where
  "show_int i = (if i < 0 then ''-'' @ show_nat (nat (- i)) else show_nat (nat i))"

section \<open>list: the uploads of the current space, page by page\<close>

text \<open>
  The response of \<^verbatim>\<open>client.capability.upload.list\<close>: the uploads of one page and
  the cursor for the next one (a string, or undefined).
\<close>

record 'u UploadListSuccess =
  results :: "'u list"
  cursor :: "string option"

text \<open>Truthiness of a cursor in \<^verbatim>\<open>res.cursor && ...\<close>: undefined and the empty
  string are falsy.\<close>

definition truthy_cursor :: "string option \<Rightarrow> bool" where
  "truthy_cursor c = (case c of None \<Rightarrow> False | Some s \<Rightarrow> s \<noteq> [])"

text \<open>
  The service behind \<^verbatim>\<open>client.capability.upload.list\<close>: from its state and the
  cursor of the request it rejects, resolves to undefined, or resolves to a page, and
  moves to a new state.
\<close>

type_synonym ('u, 'sv) upload_list =
  "'sv \<Rightarrow> string option \<Rightarrow> (thrown + 'u UploadListSuccess option) \<times> 'sv"

text \<open>
  The variables of \<^verbatim>\<open>list\<close> (\<open>count\<close>, \<open>res\<close>) on top of the terminal and the
  service. Two fields are not variables of the source: \<open>asked\<close> records the cursor of
  every request in order, and \<open>fetched\<close> records every page that a request resolved
  to, in order.
\<close>

record ('u, 'sv) list_state = "'sv world" +
  count :: nat
  res :: "'u UploadListSuccess option"
  asked :: "string option list"
  fetched :: "'u UploadListSuccess list"

text \<open>The condition of the \<^verbatim>\<open>do ... while\<close>, line 177:
  \<^verbatim>\<open>res.cursor && res.results.length\<close>.\<close>

definition list_continues :: "'u UploadListSuccess \<Rightarrow> bool" where
  "list_continues r = (truthy_cursor (cursor r) \<and> results r \<noteq> [])"

text \<open>
  The \<^verbatim>\<open>do ... while\<close> loop, lines 170 to 177. The loop need not end: a service
  may hand out non-empty pages with cursors for ever, so the loop is a partial function
  and not returning is the value \<open>None\<close>. \<open>render\<close> stands for
  \<^verbatim>\<open>uploadListResponseToString\<close> of lib.js. The cursor of a request is
  \<^verbatim>\<open>res?.cursor\<close>: undefined before the first response.
\<close>

partial_function (option) list_loop ::
  "('u, 'sv) upload_list \<Rightarrow> ('u UploadListSuccess \<Rightarrow> opts \<Rightarrow> string) \<Rightarrow> opts \<Rightarrow>
   ('u, 'sv) list_state \<Rightarrow> (completion \<times> ('u, 'sv) list_state) option" where
  "list_loop fetch render os s =
     (let c = (case res s of None \<Rightarrow> None | Some r \<Rightarrow> cursor r) in
      case fetch (server s) c of
        (Inl e, sv) \<Rightarrow> Some (Threw e, s\<lparr>server := sv, asked := asked s @ [c]\<rparr>)
      | (Inr None, sv) \<Rightarrow>
          Some (Threw (new_Error ''missing upload list response''),
                s\<lparr>server := sv, res := None, asked := asked s @ [c]\<rparr>)
      | (Inr (Some r), sv) \<Rightarrow>
          (let s' = s\<lparr>console := console s @
                        (if results r \<noteq> [] then [ConsoleLog (render r os)] else []),
                      server := sv,
                      count := count s + length (results r),
                      res := Some r,
                      asked := asked s @ [c],
                      fetched := fetched s @ [r]\<rparr>
           in if list_continues r
              then list_loop fetch render os s'
              else Some (Returned, s')))"

definition list_init :: "'sv \<Rightarrow> ('u, 'sv) list_state" where
  "list_init sv = \<lparr>console = [], server = sv, count = 0, res = None, asked = [], fetched = []\<rparr>"

definition no_uploads_notice :: "console_line list" where
  "no_uploads_notice =
     [ConsoleLog (asterism @ '' No uploads in space''),
      ConsoleLog (asterism @ '' Try out `w3 up <path to files>` to upload some'')]"

text \<open>\<^verbatim>\<open>list(opts)\<close>, lines 165 to 183, on a client that \<^verbatim>\<open>getClient\<close> has
  delivered.\<close>

definition list ::
  "('u, 'sv) upload_list \<Rightarrow> ('u UploadListSuccess \<Rightarrow> opts \<Rightarrow> string) \<Rightarrow> opts \<Rightarrow>
   'sv \<Rightarrow> (completion \<times> ('u, 'sv) list_state) option" where
  "list fetch render os sv =
     (case list_loop fetch render os (list_init sv) of
        None \<Rightarrow> None
      | Some (Returned, s) \<Rightarrow>
          Some (Returned,
                if count s = 0 \<and> \<not> json os
                then s\<lparr>console := console s @ no_uploads_notice\<rparr> else s)
      | Some (st, s) \<Rightarrow> Some (st, s))"

section \<open>remove: an upload and, with --shards, its shards\<close>

text \<open>
  What \<^verbatim>\<open>client.capability.upload.remove\<close> resolves to: the removed upload
  record. Its \<open>root\<close> is undefined when no such upload was found, and its list of
  shards may be undefined.
\<close>

record 'cid UploadRemoveSuccess =
  root :: "'cid option"
  shards :: "'cid list option"

text \<open>
  The collaborators of \<^verbatim>\<open>remove\<close>: \<^verbatim>\<open>String.prototype.trim\<close>,
  \<^verbatim>\<open>CID.parse\<close> (which throws on a string that is not a CID), the two
  service calls, each of which resolves or rejects and changes the service, and the
  string form of a CID in a template literal.
\<close>

record ('cid, 'sv) remove_client =
  trim :: "string \<Rightarrow> string"
  CID_parse :: "string \<Rightarrow> thrown + 'cid"
  upload_remove :: "'sv \<Rightarrow> 'cid \<Rightarrow> (thrown + 'cid UploadRemoveSuccess) \<times> 'sv"
  store_remove :: "'sv \<Rightarrow> 'cid \<Rightarrow> (thrown + unit) \<times> 'sv"
  cid_toString :: "'cid \<Rightarrow> string"

text \<open>One element of the array that \<^verbatim>\<open>Promise.allSettled\<close> resolves to.\<close>

datatype settled = Fulfilled | Rejected thrown

fun is_rejected :: "settled \<Rightarrow> bool" where
  "is_rejected (Rejected e) = True"
| "is_rejected Fulfilled = False"

text \<open>
  The terminal and the service, the shards for which \<^verbatim>\<open>store.remove\<close> has been
  called (a record of the calls, not a variable of the source), and the array
  \<^verbatim>\<open>results\<close>, here \<open>outcomes\<close>.
\<close>

record ('cid, 'sv) remove_state = "'sv world" +
  requested :: "'cid list"
  outcomes :: "settled list"

text \<open>
  \<^verbatim>\<open>removeShard(shard)\<close>, lines 224 to 230, together with the settling of its
  promise: the request is issued, and \<^verbatim>\<open>oraPromise\<close> prints the success text or
  the fail text and settles as the request did.
\<close>

definition removeShard ::
  "('cid, 'sv) remove_client \<Rightarrow> 'cid \<Rightarrow> ('cid, 'sv) remove_state \<Rightarrow> ('cid, 'sv) remove_state" where
  "removeShard client shard s =
     (case store_remove client (server s) shard of
        (Inr u, sv) \<Rightarrow>
          s\<lparr>console := console s @ [OraSucceed (cid_toString client shard @ '' removed'')],
            server := sv,
            requested := requested s @ [shard],
            outcomes := outcomes s @ [Fulfilled]\<rparr>
      | (Inl e, sv) \<Rightarrow>
          s\<lparr>console := console s @ [OraFail (cid_toString client shard @ '' failed'')],
            server := sv,
            requested := requested s @ [shard],
            outcomes := outcomes s @ [Rejected e]\<rparr>)"

text \<open>
  \<^verbatim>\<open>await Promise.allSettled(shards.map(removeShard))\<close>, line 232. Every request
  is issued, in the order of \<open>shards\<close>, whatever the others do, and the array of
  outcomes has the order of \<open>shards\<close>. The requests run concurrently; the model lets
  the service take them in the order in which they were issued, and prints the spinner
  lines in that order.
\<close>

fun allSettled_removeShard ::
  "('cid, 'sv) remove_client \<Rightarrow> 'cid list \<Rightarrow> ('cid, 'sv) remove_state \<Rightarrow> ('cid, 'sv) remove_state" where
  "allSettled_removeShard client [] s = s"
| "allSettled_removeShard client (shard # rest) s =
     allSettled_removeShard client rest (removeShard client shard s)"

definition remove_init :: "'sv \<Rightarrow> ('cid, 'sv) remove_state" where
  "remove_init sv = \<lparr>console = [], server = sv, requested = [], outcomes = []\<rparr>"

text \<open>\<^verbatim>\<open>remove(rootCid, opts)\<close>, lines 189 to 237.\<close>

definition remove ::
  "('cid, 'sv) remove_client \<Rightarrow> string \<Rightarrow> opts \<Rightarrow> 'sv \<Rightarrow> completion \<times> ('cid, 'sv) remove_state" where
  "remove client rootCid os sv =
     (case CID_parse client (trim client rootCid) of
        Inl err \<Rightarrow>
          (Exited 1,
           (remove_init sv)\<lparr>console := [ConsoleError (''Error: '' @ rootCid @ '' is not a CID'')]\<rparr>)
      | Inr r \<Rightarrow>
          (case upload_remove client sv r of
             (Inl err, sv1) \<Rightarrow>
               (Exited 1,
                (remove_init sv1)\<lparr>console :=
                  [ConsoleError (''Remove failed: '' @
                     (case message err of Some m \<Rightarrow> m | None \<Rightarrow> to_string err)),
                   ConsoleErrorValue err]\<rparr>)
           | (Inr upload, sv1) \<Rightarrow>
               if \<not> opts.shards os then (Returned, remove_init sv1)
               else if root upload = None then
                 (Returned,
                  (remove_init sv1)\<lparr>console :=
                    [ConsoleLog (asterism @ '' upload not found. could not determine shards to remove.'')]\<rparr>)
               else if UploadRemoveSuccess.shards upload = None
                       \<or> the (UploadRemoveSuccess.shards upload) = [] then
                 (Returned,
                  (remove_init sv1)\<lparr>console := [ConsoleLog (asterism @ '' no shards to remove.'')]\<rparr>)
               else
                 (let ss = the (UploadRemoveSuccess.shards upload);
                      s = allSettled_removeShard client ss
                            ((remove_init sv1)\<lparr>console :=
                               [ConsoleLog (asterism @ '' removing '' @ show_nat (length ss) @
                                  '' shard'' @ (if length ss = 1 then [] else ''s''))]\<rparr>)
                  in if list_ex is_rejected (outcomes s) then (Exited 1, s) else (Returned, s))))"

section \<open>usageReport: usage of every space of every account\<close>

text \<open>
  A JavaScript number is an IEEE 754 double. The sizes of a usage report and the total of
  \<^verbatim>\<open>usageReport\<close> are whole numbers of bytes, so an \<open>int\<close> stands for a double
  that holds an integer (of magnitude below 2 to the power 1024). Such a double has 53
  significant bits: \<open>round_double\<close> gives the double nearest to an integer, ties going
  to the even significand, and \<^verbatim>\<open>a + b\<close> is the exact sum rounded.
\<close>

fun bit_length :: "nat \<Rightarrow> nat" where
  "bit_length n = (if n = 0 then 0 else Suc (bit_length (n div 2)))"

declare bit_length.simps [simp del]

definition round_double :: "int \<Rightarrow> int" where
  "round_double x =
     (let a = nat \<bar>x\<bar> in
      if a \<le> 2 ^ 53 then x
      else
        (let m = 2 ^ (bit_length a - 53);
             q = a div m;
             r = a mod m;
             n = (if 2 * r < m \<or> (2 * r = m \<and> even q) then q * m else (q + 1) * m)
         in if x < 0 then - int n else int n))"

definition js_add :: "int \<Rightarrow> int \<Rightarrow> int" where
  "js_add a b = round_double (a + b)"

text \<open>
  One report of \<^verbatim>\<open>client.capability.usage.report\<close>: the provider, the space,
  and the sizes at the start and at the end of the period.
\<close>

record usage_size =
  initial :: int
  final :: int

record usage_data =
  provider :: string
  space :: string
  size' :: usage_size

text \<open>
  What the generator yields: \<^verbatim>\<open>{ account: account.did(), ...report }\<close>. The fields
  of the report are copied as they are, its \<open>space\<close> included; the space of the loop is
  not written into the record. The type of a report has no field \<open>account\<close>, so the
  spread leaves the account of the traversal in place.
\<close>

record usage_record = usage_data +
  account :: string

definition tag_account :: "string \<Rightarrow> usage_data \<Rightarrow> usage_record" where
  "tag_account a report =
     \<lparr>provider = provider report, space = space report, size' = size' report, account = a\<rparr>"

record 't period =
  period_from :: 't
  period_to :: 't

text \<open>An element of \<^verbatim>\<open>subscriptions.results\<close>; only \<open>consumers\<close> is read.\<close>

record subscription =
  consumers :: "string list"

text \<open>
  The client as \<^verbatim>\<open>getSpaceUsageReports\<close> uses it: the DIDs of
  \<^verbatim>\<open>Object.values(client.accounts())\<close> in their order, and the two service
  calls. \<^verbatim>\<open>usage.report\<close> resolves to an object; the list holds its
  \<^verbatim>\<open>Object.entries\<close> in their order.
\<close>

record ('t, 'sv) usage_client =
  accounts :: "string list"
  subscription_list :: "'sv \<Rightarrow> string \<Rightarrow> (thrown + subscription list) \<times> 'sv"
  usage_report :: "'sv \<Rightarrow> string \<Rightarrow> 't period \<Rightarrow> (thrown + (string \<times> usage_data) list) \<times> 'sv"

datatype usage_call = SubscriptionList string | UsageReport string

text \<open>
  The state of the generator: the service, the calls made so far (a record of the calls,
  not a variable of the source) and the records yielded so far. The terminal is not
  touched by the generator.
\<close>

record 'sv usage_state = "'sv world" +
  calls :: "usage_call list"
  yielded :: "usage_record list"

text \<open>
  The three nested loops of \<^verbatim>\<open>getSpaceUsageReports\<close>, lines 561 to 573, innermost
  first. Each returns the value that was thrown, if a call rejected, and the state reached;
  a rejected call ends all three loops.
\<close>

fun for_consumers ::
  "('t, 'sv) usage_client \<Rightarrow> 't period \<Rightarrow> string \<Rightarrow> string list \<Rightarrow> 'sv usage_state \<Rightarrow>
   thrown option \<times> 'sv usage_state" where
  "for_consumers client p a [] s = (None, s)"
| "for_consumers client p a (sp # rest) s =
     (case usage_report client (server s) sp p of
        (Inl e, sv) \<Rightarrow> (Some e, s\<lparr>server := sv, calls := calls s @ [UsageReport sp]\<rparr>)
      | (Inr result, sv) \<Rightarrow>
          for_consumers client p a rest
            (s\<lparr>server := sv,
               calls := calls s @ [UsageReport sp],
               yielded := yielded s @ map (\<lambda>(k, report). tag_account a report) result\<rparr>))"

fun for_subscriptions ::
  "('t, 'sv) usage_client \<Rightarrow> 't period \<Rightarrow> string \<Rightarrow> subscription list \<Rightarrow> 'sv usage_state \<Rightarrow>
   thrown option \<times> 'sv usage_state" where
  "for_subscriptions client p a [] s = (None, s)"
| "for_subscriptions client p a (sub # rest) s =
     (case for_consumers client p a (consumers sub) s of
        (Some e, s') \<Rightarrow> (Some e, s')
      | (None, s') \<Rightarrow> for_subscriptions client p a rest s')"

fun for_accounts ::
  "('t, 'sv) usage_client \<Rightarrow> 't period \<Rightarrow> string list \<Rightarrow> 'sv usage_state \<Rightarrow>
   thrown option \<times> 'sv usage_state" where
  "for_accounts client p [] s = (None, s)"
| "for_accounts client p (a # rest) s =
     (case subscription_list client (server s) a of
        (Inl e, sv) \<Rightarrow> (Some e, s\<lparr>server := sv, calls := calls s @ [SubscriptionList a]\<rparr>)
      | (Inr subscriptions, sv) \<Rightarrow>
          (case for_subscriptions client p a subscriptions
                  (s\<lparr>server := sv, calls := calls s @ [SubscriptionList a]\<rparr>) of
             (Some e, s') \<Rightarrow> (Some e, s')
           | (None, s') \<Rightarrow> for_accounts client p rest s'))"

definition usage_init :: "'sv \<Rightarrow> 'sv usage_state" where
  "usage_init sv = \<lparr>console = [], server = sv, calls = [], yielded = []\<rparr>"

text \<open>
  \<^verbatim>\<open>getSpaceUsageReports(client, period)\<close> run until it is exhausted or throws: the
  value thrown, if any, with the records yielded before that and the calls made.
\<close>

definition getSpaceUsageReports ::
  "('t, 'sv) usage_client \<Rightarrow> 't period \<Rightarrow> 'sv \<Rightarrow> thrown option \<times> 'sv usage_state" where
  "getSpaceUsageReports client p sv = for_accounts client p (accounts client) (usage_init sv)"

text \<open>
  The collaborators of \<^verbatim>\<open>usageReport\<close> that are not the client:
  \<^verbatim>\<open>startOfLastMonth\<close> and \<^verbatim>\<open>filesize\<close> of lib.js,
  \<^verbatim>\<open>Date.prototype.toISOString\<close>, and \<^verbatim>\<open>dagJSON.stringify\<close> on the object of
  line 533, given as the yielded record and the value of \<open>reportedAt\<close>.
\<close>

record 't usage_lib =
  startOfLastMonth :: "'t \<Rightarrow> 't"
  filesize :: "int \<Rightarrow> string"
  toISOString :: "'t \<Rightarrow> string"
  dagJSON_stringify :: "usage_record \<Rightarrow> string \<Rightarrow> string"

text \<open>The variables of \<^verbatim>\<open>usageReport\<close>: the terminal, the service, \<open>total\<close>, and
  the calls that the generator made.\<close>

record 'sv report_state = "'sv world" +
  total :: int
  made :: "usage_call list"

text \<open>The body of the \<^verbatim>\<open>for await\<close>, lines 531 to 549, for one yielded record.\<close>

definition report_one ::
  "'t usage_lib \<Rightarrow> opts \<Rightarrow> 't \<Rightarrow> usage_record \<Rightarrow> 'sv report_state \<Rightarrow> 'sv report_state" where
  "report_one lib os now r s =
     s\<lparr>console := console s @
          (if json os then [ConsoleLog (dagJSON_stringify lib r (toISOString lib now))]
           else [ConsoleLog ('' Account: '' @ account r),
                 ConsoleLog (''Provider: '' @ provider r),
                 ConsoleLog (''   Space: '' @ space r),
                 ConsoleLog (''    Size: '' @
                   (if human os then filesize lib (final (size' r)) else show_int (final (size' r)))
                   @ [CHR 0x0A])]),
       total := js_add (total s) (final (size' r))\<rparr>"

text \<open>
  \<^verbatim>\<open>usageReport(opts)\<close>, lines 517 to 554, at the time \<open>now\<close>. The body of the
  loop does not touch the client, so running it on the records in the order in which they
  were yielded gives the terminal and the total that the interleaved run gives. When the
  generator throws, the loop throws after the body has run for the records yielded before.
\<close>

definition usageReport ::
  "'t usage_lib \<Rightarrow> ('t, 'sv) usage_client \<Rightarrow> opts \<Rightarrow> 't \<Rightarrow> 'sv \<Rightarrow> completion \<times> 'sv report_state" where
  "usageReport lib client os now sv =
     (let p = \<lparr>period_from = startOfLastMonth lib now, period_to = now\<rparr>;
          (raised, g) = getSpaceUsageReports client p sv;
          s = fold (report_one lib os now) (yielded g)
                \<lparr>console = [], server = server g, total = 0, made = calls g\<rparr>
      in case raised of
           Some e \<Rightarrow> (Threw e, s)
         | None \<Rightarrow>
             (Returned,
              if \<not> json os
              then s\<lparr>console := console s @
                     [ConsoleLog (''   Total: '' @
                        (if human os then filesize lib (total s) else show_int (total s)))]\<rparr>
              else s))"

section \<open>createDelegation: a delegation exported as an archive\<close>

text \<open>The value of \<^verbatim>\<open>opts.can\<close>: one ability or an array of abilities.\<close>

datatype can_value = One string | Many "string list"

record delegation_opts =
  can :: "can_value option"
  name :: "string option"
  type :: "string option"
  expiration :: "int option"
  output' :: "string option"

text \<open>Truthiness of an optional string: undefined and the empty string are falsy.\<close>

definition truthy_string :: "string option \<Rightarrow> bool" where
  "truthy_string x = (case x of None \<Rightarrow> False | Some t \<Rightarrow> t \<noteq> [])"

text \<open>
  Line 345: \<^verbatim>\<open>opts.can ? [opts.can].flat() : Object.keys(spaceAccess)\<close>. An array is
  truthy even when it is empty; \<open>keys\<close> stands for the keys of \<^verbatim>\<open>spaceAccess\<close>.
\<close>

definition abilities_of :: "can_value option \<Rightarrow> string list \<Rightarrow> string list" where
  "abilities_of c keys =
     (case c of
        None \<Rightarrow> keys
      | Some (One a) \<Rightarrow> (if a \<noteq> [] then [a] else keys)
      | Some (Many as) \<Rightarrow> as)"

text \<open>The third argument of \<^verbatim>\<open>client.createDelegation\<close>; no expiration is
  \<^verbatim>\<open>Infinity\<close>.\<close>

record delegation_request =
  request_expiration :: "int option"
  audienceMeta_name :: "string option"
  audienceMeta_type :: "string option"

text \<open>
  Lines 350 to 353 and 357 to 358: the name and the type of the audience are passed on
  when they are truthy, and \<^verbatim>\<open>opts.expiration || Infinity\<close> is the expiration when
  it is a number other than 0.
\<close>

definition request_of :: "delegation_opts \<Rightarrow> delegation_request" where
  "request_of os =
     \<lparr>request_expiration =
        (case expiration os of None \<Rightarrow> None | Some t \<Rightarrow> if t \<noteq> 0 then Some t else None),
      audienceMeta_name = (if truthy_string (name os) then name os else None),
      audienceMeta_type = (if truthy_string (type os) then type os else None)\<rparr>"

text \<open>
  The collaborators of \<^verbatim>\<open>createDelegation\<close>. A delegation is taken as the
  sequence of blocks that its \<^verbatim>\<open>export()\<close> gives. The archive writer of
  \<^verbatim>\<open>CarWriter.create()\<close> is a state \<open>'w\<close> with the two asynchronous operations
  \<^verbatim>\<open>put\<close> and \<^verbatim>\<open>close\<close>, each of which resolves or rejects.
  \<open>CarWriter_out\<close> gives the bytes that a writer has put on \<^verbatim>\<open>out\<close>, the stream
  that line 364 pipes to the destination.
\<close>

record ('b, 'w) delegation_client =
  currentSpace :: "string option"
  DID_parse :: "string \<Rightarrow> thrown + string"
  spaceAccess_keys :: "string list"
  client_createDelegation :: "string \<Rightarrow> string list \<Rightarrow> delegation_request \<Rightarrow> thrown + 'b list"
  CarWriter_create :: 'w
  writer_put :: "'w \<Rightarrow> 'b \<Rightarrow> (thrown + unit) \<times> 'w"
  writer_close :: "'w \<Rightarrow> (thrown + unit) \<times> 'w"
  CarWriter_out :: "'w \<Rightarrow> string"

datatype destination = File string | Stdout

datatype 'b writer_call = Put 'b | Close

text \<open>
  What \<^verbatim>\<open>createDelegation\<close> leaves behind: the terminal lines it printed itself, the
  writer, the destination that the output of the writer was piped to (if that line was
  reached), and the calls made on the writer, in order (a record of the calls, not a
  variable of the source).
\<close>

record ('b, 'w) delegation_state =
  printed :: "console_line list"
  writer :: 'w
  dest :: "destination option"
  writer_calls :: "'b writer_call list"

text \<open>The loop of lines 366 to 369: one awaited \<^verbatim>\<open>writer.put\<close> after the other; a
  rejected one ends the loop with the value thrown.\<close>

fun put_blocks ::
  "('b, 'w) delegation_client \<Rightarrow> 'b list \<Rightarrow> ('b, 'w) delegation_state \<Rightarrow>
   thrown option \<times> ('b, 'w) delegation_state" where
  "put_blocks client [] s = (None, s)"
| "put_blocks client (block # rest) s =
     (case writer_put client (writer s) block of
        (Inl e, w) \<Rightarrow> (Some e, s\<lparr>writer := w, writer_calls := writer_calls s @ [Put block]\<rparr>)
      | (Inr u, w) \<Rightarrow>
          put_blocks client rest (s\<lparr>writer := w, writer_calls := writer_calls s @ [Put block]\<rparr>))"

text \<open>
  Lines 361 to 370: the writer is created, its output is piped to the destination (the
  file of \<^verbatim>\<open>opts.output\<close> when that is truthy, the standard output otherwise), the
  blocks are put, and the writer is closed. Nothing catches a rejected \<^verbatim>\<open>put\<close>:
  it ends the function before line 370. The source has no call that closes the
  destination; errors of the destination stream are events outside this function.
\<close>

definition export_archive ::
  "('b, 'w) delegation_client \<Rightarrow> delegation_opts \<Rightarrow> 'b list \<Rightarrow>
   completion \<times> ('b, 'w) delegation_state" where
  "export_archive client os blocks =
     (let s0 = \<lparr>printed = [], writer = CarWriter_create client,
                dest = Some (case output' os of
                               None \<Rightarrow> Stdout
                             | Some path \<Rightarrow> if path \<noteq> [] then File path else Stdout),
                writer_calls = []\<rparr>
      in case put_blocks client blocks s0 of
           (Some e, s) \<Rightarrow> (Threw e, s)
         | (None, s) \<Rightarrow>
             (case writer_close client (writer s) of
                (Inl e, w) \<Rightarrow> (Threw e, s\<lparr>writer := w, writer_calls := writer_calls s @ [Close]\<rparr>)
              | (Inr u, w) \<Rightarrow> (Returned, s\<lparr>writer := w, writer_calls := writer_calls s @ [Close]\<rparr>)))"

definition delegation_init :: "('b, 'w) delegation_client \<Rightarrow> ('b, 'w) delegation_state" where
  "delegation_init client =
     \<lparr>printed = [], writer = CarWriter_create client, dest = None, writer_calls = []\<rparr>"

text \<open>\<^verbatim>\<open>createDelegation(audienceDID, opts)\<close>, lines 337 to 371. Before line 361 no
  writer exists; the state then shows the initial writer and no call on it.\<close>

definition createDelegation ::
  "('b, 'w) delegation_client \<Rightarrow> string \<Rightarrow> delegation_opts \<Rightarrow>
   completion \<times> ('b, 'w) delegation_state" where
  "createDelegation client audienceDID os =
     (if currentSpace client = None then
        (Threw (new_Error ''no current space, use `w3 space register` to create one.''),
         delegation_init client)
      else
        case DID_parse client audienceDID of
          Inl e \<Rightarrow> (Threw e, delegation_init client)
        | Inr audience \<Rightarrow>
            (let abilities = abilities_of (can os) (spaceAccess_keys client) in
             if abilities = [] then
               (Exited 1,
                (delegation_init client)\<lparr>printed :=
                   [ConsoleError ''Error: missing capabilities for delegation'']\<rparr>)
             else
               case client_createDelegation client audience abilities (request_of os) of
                 Inl e \<Rightarrow> (Threw e, delegation_init client)
               | Inr blocks \<Rightarrow> export_archive client os blocks))"

section \<open>Example services and inputs\<close>

text \<open>
  A service that holds a sequence of pages and answers the n-th request with the n-th
  page, whatever the cursor of the request; after the last page it resolves to undefined.
\<close>

definition page_server :: "'u UploadListSuccess list \<Rightarrow> ('u, nat) upload_list" where
  "page_server ps n c =
     (if n < length ps then (Inr (Some (ps ! n)), Suc n) else (Inr None, n))"

text \<open>A service that answers every request with an empty page and a cursor.\<close>

definition polling_server :: "(nat, unit) upload_list" where
  "polling_server sv c = (Inr (Some \<lparr>results = [], cursor = Some ''next''\<rparr>), sv)"

definition two_pages :: "nat UploadListSuccess list" where
  "two_pages = [\<lparr>results = [1, 2], cursor = Some ''c1''\<rparr>, \<lparr>results = [3], cursor = None\<rparr>]"

definition three_pages :: "nat UploadListSuccess list" where
  "three_pages =
     [\<lparr>results = [1], cursor = Some ''a''\<rparr>, \<lparr>results = [2, 3], cursor = Some ''b''\<rparr>,
      \<lparr>results = [], cursor = None\<rparr>]"

definition gap_pages :: "nat UploadListSuccess list" where
  "gap_pages = [\<lparr>results = [], cursor = Some ''c1''\<rparr>, \<lparr>results = [7], cursor = None\<rparr>]"

definition empty_space :: "nat UploadListSuccess list" where
  "empty_space = [\<lparr>results = [], cursor = None\<rparr>]"

definition ex_render :: "nat UploadListSuccess \<Rightarrow> opts \<Rightarrow> string" where
  "ex_render r os = show_nat (length (results r)) @ '' uploads''"

definition ex_opts :: opts where
  "ex_opts = \<lparr>json = False, shards = False, human = False\<rparr>"

definition ex_json :: opts where
  "ex_json = \<lparr>json = True, shards = False, human = False\<rparr>"

text \<open>
  A client for \<^verbatim>\<open>remove\<close>: trimming strips blanks, a CID is a string that starts
  with \<open>bafy\<close>, two uploads are known, and the shard \<open>B\<close> cannot be removed.
\<close>

definition ex_trim :: "string \<Rightarrow> string" where
  "ex_trim t = rev (dropWhile (\<lambda>c. c = CHR '' '') (rev (dropWhile (\<lambda>c. c = CHR '' '') t)))"

definition not_found :: thrown where
  "not_found = Thrown (Some ''not found'') ''Error: not found''"

definition ex_remove_client :: "(string, unit) remove_client" where
  "ex_remove_client =
     \<lparr>trim = ex_trim,
      CID_parse = (\<lambda>t. if take 4 t = ''bafy'' then Inr t else Inl (new_Error ''invalid cid'')),
      upload_remove = (\<lambda>sv r.
        (Inr (if r = ''bafyabc'' then \<lparr>root = Some r, shards = Some [''A'', ''B'', ''C'']\<rparr>
              else if r = ''bafyempty'' then \<lparr>root = Some r, shards = Some []\<rparr>
              else \<lparr>root = None, shards = None\<rparr>), sv)),
      store_remove = (\<lambda>sv x. (if x = ''B'' then Inl not_found else Inr (), sv)),
      cid_toString = (\<lambda>x. x)\<rparr>"

definition ex_shards :: opts where
  "ex_shards = \<lparr>json = False, shards = True, human = False\<rparr>"

text \<open>
  Two clients for \<^verbatim>\<open>usageReport\<close>: two accounts, each with one subscription
  that lists two spaces, each space with two reports. The second client rejects the report
  for one space. The state of the service counts the calls.
\<close>

definition ex_reports :: "string \<Rightarrow> (string \<times> usage_data) list" where
  "ex_reports sp =
     [(''p1'', \<lparr>provider = ''p1'', space = sp, size' = \<lparr>initial = 0, final = 10\<rparr>\<rparr>),
      (''p2'', \<lparr>provider = ''p2'', space = sp, size' = \<lparr>initial = 0, final = 5\<rparr>\<rparr>)]"

definition ex_subscriptions :: "string \<Rightarrow> subscription list" where
  "ex_subscriptions a = [\<lparr>consumers = [a @ ''-x'', a @ ''-y'']\<rparr>]"


definition ex_failing_client :: "(nat, nat) usage_client" where
  "ex_failing_client =
     \<lparr>accounts = [''alice'', ''bob''],
      subscription_list = (\<lambda>sv a. (Inr (ex_subscriptions a), Suc sv)),
      usage_report = (\<lambda>sv sp q.
        (if sp = ''alice-y'' then Inl not_found else Inr (ex_reports sp), Suc sv))\<rparr>"



definition ex_lib :: "nat usage_lib" where
  "ex_lib =
     \<lparr>startOfLastMonth = (\<lambda>t. t - 30),
      filesize = (\<lambda>n. show_int n @ '' B''),
      toISOString = show_nat,
      dagJSON_stringify = (\<lambda>r t. account r @ '' '' @ space r @ '' '' @ t)\<rparr>"

definition ex_period :: "nat period" where
  "ex_period = \<lparr>period_from = 70, period_to = 100\<rparr>"

text \<open>
  A client for \<^verbatim>\<open>createDelegation\<close>: the blocks of a delegation are its abilities,
  the writer appends every block to what it has written, rejects the block \<open>bad\<close>, and
  appends a full stop when it is closed; its output starts with the header \<open>car:\<close>.
\<close>

definition ex_delegation_client :: "(string, string) delegation_client" where
  "ex_delegation_client =
     \<lparr>currentSpace = Some ''did:key:space'',
      DID_parse = (\<lambda>t. if take 4 t = ''did:'' then Inr t else Inl (new_Error ''invalid did'')),
      spaceAccess_keys = [''store/add'', ''upload/add''],
      client_createDelegation = (\<lambda>audience abilities request. Inr abilities),
      CarWriter_create = [],
      writer_put = (\<lambda>w block. if block = ''bad'' then (Inl not_found, w) else (Inr (), w @ block)),
      writer_close = (\<lambda>w. (Inr (), w @ ''.'')),
      CarWriter_out = (\<lambda>w. ''car:'' @ w)\<rparr>"

definition ex_delegation_opts :: delegation_opts where
  "ex_delegation_opts = \<lparr>can = None, name = None, type = None, expiration = None, output' = None\<rparr>"

definition ex_bad_opts :: delegation_opts where
  "ex_bad_opts =
     \<lparr>can = Some (Many [''a'', ''bad'', ''c'']), name = None, type = None, expiration = Some 0,
      output' = Some ''out.car''\<rparr>"

definition ex_file_opts :: delegation_opts where
  "ex_file_opts =
     \<lparr>can = None, name = Some ''carol'', type = Some ''device'', expiration = Some 1700000000,
      output' = Some ''carol.car''\<rparr>"

definition ex_only_bad_opts :: delegation_opts where
  "ex_only_bad_opts =
     \<lparr>can = Some (One ''bad''), name = None, type = None, expiration = None, output' = None\<rparr>"

section \<open>Auxiliary predicates\<close>

text \<open>
  What a service answers to a client that follows the cursors: \<open>serves fetch sv c ps\<close>
  holds when the request with cursor \<open>c\<close> in state \<open>sv\<close> resolves to the first page of
  \<open>ps\<close>, the request with that page's cursor resolves to the second, and so on.
\<close>

fun serves ::
  "('u, 'sv) upload_list \<Rightarrow> 'sv \<Rightarrow> string option \<Rightarrow> 'u UploadListSuccess list \<Rightarrow> bool" where
  "serves fetch sv c [] = True"
| "serves fetch sv c (p # ps) =
     (case fetch sv c of
        (Inr (Some r), sv') \<Rightarrow> r = p \<and> serves fetch sv' (cursor p) ps
      | _ \<Rightarrow> False)"

text \<open>The cursor that the next request of the loop will carry.\<close>

definition prev_cursor :: "('u, 'sv) list_state \<Rightarrow> string option" where
  "prev_cursor s = (case res s of None \<Rightarrow> None | Some r \<Rightarrow> cursor r)"

text \<open>
  The shape of a run of the loop of \<^verbatim>\<open>list\<close> that started in state \<open>s\<close>, ended as
  \<open>y\<close> and resolved the pages \<open>ps\<close> on the way.
\<close>

definition run_shape ::
  "('u, 'sv) upload_list \<Rightarrow> ('u, 'sv) list_state \<Rightarrow> completion \<times> ('u, 'sv) list_state \<Rightarrow>
   'u UploadListSuccess list \<Rightarrow> bool" where
  "run_shape fetch s y ps =
     (fetched (snd y) = fetched s @ ps \<and>
      serves fetch (server s) (prev_cursor s) ps \<and>
      (\<forall>p \<in> set (butlast ps). list_continues p) \<and>
      (if fst y = Returned
       then ps \<noteq> [] \<and> \<not> list_continues (last ps) \<and>
            asked (snd y) = asked s @ prev_cursor s # map cursor (butlast ps)
       else (ps \<noteq> [] \<longrightarrow> list_continues (last ps)) \<and>
            asked (snd y) = asked s @ prev_cursor s # map cursor ps))"

text \<open>How a promise of \<^verbatim>\<open>store.remove\<close> settles.\<close>

definition settle :: "thrown + unit \<Rightarrow> settled" where
  "settle a = (case a of Inl e \<Rightarrow> Rejected e | Inr u \<Rightarrow> Fulfilled)"










text \<open>
  The writer after every \<^verbatim>\<open>put\<close> of a sequence of blocks has resolved, starting
  from the writer \<open>w\<close>; \<open>None\<close> when one of them rejects.
\<close>

fun writer_after :: "('b, 'w) delegation_client \<Rightarrow> 'w \<Rightarrow> 'b list \<Rightarrow> 'w option" where
  "writer_after client w [] = Some w"
| "writer_after client w (block # rest) =
     (case writer_put client w block of
        (Inr u, w') \<Rightarrow> writer_after client w' rest
      | (Inl e, w') \<Rightarrow> None)"

section \<open>Properties of list\<close>

lemma list_loop_forward:
  "serves fetch (server s) (prev_cursor s) ps \<Longrightarrow> ps \<noteq> [] \<Longrightarrow>
   \<forall>p \<in> set (butlast ps). list_continues p \<Longrightarrow> \<not> list_continues (last ps) \<Longrightarrow>
   \<exists>s'. list_loop fetch render os s = Some (Returned, s') \<and>
        fetched s' = fetched s @ ps \<and>
        asked s' = asked s @ prev_cursor s # map cursor (butlast ps) \<and>
        count s' = count s + length (concat (map results ps)) \<and>
        console s' = console s @
          map (\<lambda>p. ConsoleLog (render p os)) (filter (\<lambda>p. results p \<noteq> []) ps)"
proof (induction ps arbitrary: s)
  case Nil
  then show ?case by simp
next
  case (Cons p ps)
  obtain sv' where f: "fetch (server s) (prev_cursor s) = (Inr (Some p), sv')"
    and sv: "serves fetch sv' (cursor p) ps"
    using Cons.prems(1) by (auto split: prod.splits sum.splits option.splits)
  let ?s1 = "s\<lparr>console := console s @ (if results p \<noteq> [] then [ConsoleLog (render p os)] else []),
      server := sv', count := count s + length (results p), res := Some p,
      asked := asked s @ [prev_cursor s], fetched := fetched s @ [p]\<rparr>"
  show ?case
  proof (cases "ps = []")
    case True
    with Cons.prems have nc: "\<not> list_continues p" by simp
    have "list_loop fetch render os s = Some (Returned, ?s1)"
      using f nc by (subst list_loop.simps) (auto simp add: prev_cursor_def Let_def)
    then show ?thesis using True by simp
  next
    case False
    with Cons.prems have c: "list_continues p" and rest: "\<forall>q \<in> set (butlast ps). list_continues q"
      and lst: "\<not> list_continues (last ps)" by auto
    have step: "list_loop fetch render os s = list_loop fetch render os ?s1"
      using f c by (subst list_loop.simps) (auto simp add: prev_cursor_def Let_def)
    have "serves fetch (server ?s1) (prev_cursor ?s1) ps"
      using sv by (simp add: prev_cursor_def)
    from Cons.IH[OF this False rest lst] obtain s' where
      "list_loop fetch render os ?s1 = Some (Returned, s')"
      "fetched s' = fetched ?s1 @ ps"
      "asked s' = asked ?s1 @ prev_cursor ?s1 # map cursor (butlast ps)"
      "count s' = count ?s1 + length (concat (map results ps))"
      "console s' = console ?s1 @ map (\<lambda>p. ConsoleLog (render p os)) (filter (\<lambda>p. results p \<noteq> []) ps)"
      by blast
    then show ?thesis using step False by (simp add: prev_cursor_def)
  qed
qed

lemma list_loop_backward:
  assumes "list_loop fetch render os s = Some y"
  shows "\<exists>ps. run_shape fetch s y ps"
proof (rule list_loop.raw_induct[where P = "\<lambda>fetch render os s y. \<exists>ps. run_shape fetch s y ps", OF _ assms], goal_cases)
  case (1 loop fetch render os s y)
  note IH = 1(1) and body = 1(2)
  obtain a sv where f: "fetch (server s) (prev_cursor s) = (a, sv)"
    by (cases "fetch (server s) (prev_cursor s)")
  show ?case
  proof (cases a)
    case (Inl e)
    with f body have "y = (Threw e, s\<lparr>server := sv, asked := asked s @ [prev_cursor s]\<rparr>)"
      by (simp add: prev_cursor_def)
    then show ?thesis by (intro exI[of _ "[]"]) (simp add: run_shape_def)
  next
    case (Inr ro)
    show ?thesis
    proof (cases ro)
      case None
      with f Inr body have "y = (Threw (new_Error ''missing upload list response''),
          s\<lparr>server := sv, res := None, asked := asked s @ [prev_cursor s]\<rparr>)"
        by (simp add: prev_cursor_def)
      then show ?thesis by (intro exI[of _ "[]"]) (simp add: run_shape_def)
    next
      case (Some r)
      let ?s1 = "s\<lparr>console := console s @ (if results r \<noteq> [] then [ConsoleLog (render r os)] else []),
        server := sv, count := count s + length (results r), res := Some r,
        asked := asked s @ [prev_cursor s], fetched := fetched s @ [r]\<rparr>"
      show ?thesis
      proof (cases "list_continues r")
        case False
        with f Inr Some body have "y = (Returned, ?s1)"
          by (auto simp add: prev_cursor_def Let_def)
        then show ?thesis using f Inr Some False
          by (intro exI[of _ "[r]"]) (simp add: run_shape_def)
      next
        case True
        with f Inr Some body have "loop fetch render os ?s1 = Some y"
          by (auto simp add: prev_cursor_def Let_def)
        from IH[OF this] obtain ps where ps: "run_shape fetch ?s1 y ps"
          by blast
        show ?thesis
          using ps f Inr Some True
          by (intro exI[of _ "r # ps"]) (auto simp add: prev_cursor_def run_shape_def)
      qed
    qed
  qed
qed

lemma list_Returned_iff:
  "list fetch render os sv = Some (Returned, s) \<longleftrightarrow>
   (\<exists>s0. list_loop fetch render os (list_init sv) = Some (Returned, s0) \<and>
      s = (if count s0 = 0 \<and> \<not> json os then s0\<lparr>console := console s0 @ no_uploads_notice\<rparr> else s0))"
  by (auto simp add: list_def split: option.splits completion.splits prod.splits)


lemma list_asked_first:
  assumes "list fetch render os sv = Some (st, s)"
  shows "asked s \<noteq> [] \<and> hd (asked s) = None"
proof -
  from assms obtain s0 where l: "list_loop fetch render os (list_init sv) = Some (st, s0)"
    and a: "asked s = asked s0"
    by (auto simp add: list_def split: option.splits completion.splits prod.splits if_splits)
  from list_loop_backward[OF l] obtain ps where "run_shape fetch (list_init sv) (st, s0) ps"
    by blast
  then show ?thesis using a
    by (auto simp add: run_shape_def list_init_def prev_cursor_def split: if_splits)
qed

lemma list_loop_from_init:
  assumes "serves fetch sv None ps" and "ps \<noteq> []"
    and "\<forall>p \<in> set (butlast ps). list_continues p" and "\<not> list_continues (last ps)"
  shows "\<exists>s0. list_loop fetch render os (list_init sv) = Some (Returned, s0) \<and>
           fetched s0 = ps \<and>
           asked s0 = None # map cursor (butlast ps) \<and>
           count s0 = length (concat (map results ps)) \<and>
           console s0 = map (\<lambda>p. ConsoleLog (render p os)) (filter (\<lambda>p. results p \<noteq> []) ps)"
  using list_loop_forward[of fetch "list_init sv" ps render os] assms
  by (simp add: list_init_def prev_cursor_def)

text \<open>
  Claim C1, as the code has it. For every service, \<^verbatim>\<open>list\<close> returns after having
  resolved exactly the pages \<open>ps\<close> if and only if \<open>ps\<close> is not empty, the service
  answers a client that follows the cursors with \<open>ps\<close>, every page of \<open>ps\<close> but the
  last has a non-empty cursor and at least one upload, and the last page lacks one of the
  two. So the loop goes on while the cursor is defined and the page had items, and it stops
  at the first page that has no cursor or no items. However the run ends, at least one
  request was made and the first request carried no cursor.
\<close>

theorem list_returns_at_first_page_without_cursor_or_items:
  "((\<exists>s. list fetch render os sv = Some (Returned, s) \<and> fetched s = ps) \<longleftrightarrow>
      ps \<noteq> [] \<and> serves fetch sv None ps \<and>
      (\<forall>p \<in> set (butlast ps). truthy_cursor (cursor p) \<and> results p \<noteq> []) \<and>
      \<not> (truthy_cursor (cursor (last ps)) \<and> results (last ps) \<noteq> [])) \<and>
   (list fetch render os sv = Some (st, s') \<longrightarrow> asked s' \<noteq> [] \<and> hd (asked s') = None)"
proof -
  have fwd: "ps \<noteq> [] \<and> serves fetch sv None ps \<and>
      (\<forall>p \<in> set (butlast ps). truthy_cursor (cursor p) \<and> results p \<noteq> []) \<and>
      \<not> (truthy_cursor (cursor (last ps)) \<and> results (last ps) \<noteq> [])"
    if "\<exists>s. list fetch render os sv = Some (Returned, s) \<and> fetched s = ps"
  proof -
    from that obtain s0 where l: "list_loop fetch render os (list_init sv) = Some (Returned, s0)"
      and f: "fetched s0 = ps"
      by (auto simp add: list_Returned_iff split: if_splits)
    from list_loop_backward[OF l] obtain qs where "run_shape fetch (list_init sv) (Returned, s0) qs"
      by blast
    with f show ?thesis
      by (simp add: run_shape_def list_init_def prev_cursor_def list_continues_def)
  qed
  have bwd: "\<exists>s. list fetch render os sv = Some (Returned, s) \<and> fetched s = ps"
    if a: "ps \<noteq> [] \<and> serves fetch sv None ps \<and>
      (\<forall>p \<in> set (butlast ps). truthy_cursor (cursor p) \<and> results p \<noteq> []) \<and>
      \<not> (truthy_cursor (cursor (last ps)) \<and> results (last ps) \<noteq> [])"
  proof -
    from a list_loop_from_init[of fetch sv ps render os]
    obtain s0 where "list_loop fetch render os (list_init sv) = Some (Returned, s0)"
      and "fetched s0 = ps" by (auto simp add: list_continues_def)
    then show ?thesis by (auto simp add: list_Returned_iff)
  qed
  have first: "asked s' \<noteq> [] \<and> hd (asked s') = None"
    if "list fetch render os sv = Some (st, s')"
    using that by (rule list_asked_first)
  from fwd bwd first show ?thesis by blast
qed

text \<open>
  Claim C2, as the code has it. When the service answers a client that follows the cursors
  with the pages \<open>ps\<close>, every page but the last has a non-empty cursor and at least one
  upload, and the last page has no cursor, then \<^verbatim>\<open>list\<close> returns, the pages it
  resolved are exactly \<open>ps\<close> in order, it counted the uploads of all pages, it printed
  the non-empty pages in order (and the notice when there was no upload and --json is not
  set), and the requests carried: no cursor first, then the cursor of the page resolved
  just before.
\<close>

theorem list_drains_page_sequence:
  assumes "serves fetch sv None ps" and "ps \<noteq> []"
    and "\<forall>p \<in> set (butlast ps). truthy_cursor (cursor p) \<and> results p \<noteq> []"
    and "cursor (last ps) = None"
  shows "\<exists>s. list fetch render os sv = Some (Returned, s) \<and>
           fetched s = ps \<and>
           count s = length (concat (map results ps)) \<and>
           console s = map (\<lambda>p. ConsoleLog (render p os)) (filter (\<lambda>p. results p \<noteq> []) ps) @
                       (if concat (map results ps) = [] \<and> \<not> json os then no_uploads_notice else []) \<and>
           asked s = None # map cursor (butlast ps)"
proof -
  from assms list_loop_from_init[of fetch sv ps render os]
  obtain s0 where l: "list_loop fetch render os (list_init sv) = Some (Returned, s0)"
    and s0: "fetched s0 = ps" "asked s0 = None # map cursor (butlast ps)"
      "count s0 = length (concat (map results ps))"
      "console s0 = map (\<lambda>p. ConsoleLog (render p os)) (filter (\<lambda>p. results p \<noteq> []) ps)"
    by (auto simp add: list_continues_def truthy_cursor_def)
  let ?s = "if count s0 = 0 \<and> \<not> json os then s0\<lparr>console := console s0 @ no_uploads_notice\<rparr> else s0"
  have "list fetch render os sv = Some (Returned, ?s)"
    using l by (simp add: list_Returned_iff)
  moreover have "fetched ?s = ps" "asked ?s = None # map cursor (butlast ps)"
    "count ?s = length (concat (map results ps))"
    using s0 by simp_all
  moreover have "console ?s = map (\<lambda>p. ConsoleLog (render p os)) (filter (\<lambda>p. results p \<noteq> []) ps) @
                       (if concat (map results ps) = [] \<and> \<not> json os then no_uploads_notice else [])"
    using s0 by auto
  ultimately show ?thesis by blast
qed

text \<open>
  Claim C9. When the first request resolves to a page without uploads (the space has
  none), \<^verbatim>\<open>list\<close> returns after that one request and prints no upload record.
  Without --json it prints exactly the two lines of the notice, \<open>No uploads in space\<close>
  and the hint to upload, each after the marker U+2042; with --json it prints nothing.
\<close>

theorem list_zero_uploads:
  assumes "fetch sv None = (Inr (Some r), sv')" and "results r = []"
  shows "list fetch render os sv =
           Some (Returned,
                 \<lparr>console =
                    (if json os then []
                     else [ConsoleLog (CHR 0xE2 # CHR 0x81 # CHR 0x82 # '' No uploads in space''),
                           ConsoleLog (CHR 0xE2 # CHR 0x81 # CHR 0x82 #
                             '' Try out `w3 up <path to files>` to upload some'')]),
                  server = sv', count = 0, res = Some r, asked = [None], fetched = [r]\<rparr>)"
  using assms
  by (subst list_def, subst list_loop.simps)
     (simp add: list_init_def list_continues_def Let_def no_uploads_notice_def asterism_def)


text \<open>
  Claim C1 as stated fails: the spec has the loop continue after a page with no items and
  a defined cursor. The service below answers every request with such a page; the loop
  makes one request and returns.
\<close>

theorem list_stops_on_empty_page_with_cursor:
  "polling_server () None = (Inr (Some \<lparr>results = [], cursor = Some ''next''\<rparr>), ()) \<and>
   list polling_server ex_render ex_opts () =
     Some (Returned,
           \<lparr>console = no_uploads_notice, server = (), count = 0,
            res = Some \<lparr>results = [], cursor = Some ''next''\<rparr>, asked = [None],
            fetched = [\<lparr>results = [], cursor = Some ''next''\<rparr>]\<rparr>)"
  by (subst list_def, subst list_loop.simps)
     (simp add: polling_server_def list_init_def list_continues_def ex_opts_def)

text \<open>
  The theorem of claim C1 at a service with two pages: the first has a cursor and two
  uploads, the second has no cursor.
\<close>

theorem list_returns_at_first_page_witness:
  "(\<exists>s. list (page_server two_pages) ex_render ex_opts 0 = Some (Returned, s) \<and>
        fetched s = two_pages)"
  using list_returns_at_first_page_without_cursor_or_items
          [of "page_server two_pages" ex_render ex_opts 0 two_pages]
  by (simp add: page_server_def two_pages_def truthy_cursor_def)

text \<open>
  Claim C2 as stated fails: the page sequence below ends with a page without cursor, its
  first page has a cursor and no items. The loop stops after the first page: the upload 7
  of the second page is never requested.
\<close>

theorem list_skips_pages_after_empty_page:
  "serves (page_server gap_pages) 0 None gap_pages \<and> cursor (last gap_pages) = None \<and>
   concat (map results gap_pages) = [7] \<and>
   list (page_server gap_pages) ex_render ex_opts 0 =
     Some (Returned,
           \<lparr>console = no_uploads_notice, server = 1, count = 0,
            res = Some \<lparr>results = [], cursor = Some ''c1''\<rparr>, asked = [None],
            fetched = [\<lparr>results = [], cursor = Some ''c1''\<rparr>]\<rparr>)"
  by (subst list_def, subst list_loop.simps)
     (simp add: page_server_def gap_pages_def list_init_def list_continues_def ex_opts_def)

text \<open>
  The theorem of claim C2 at a service with three pages.
\<close>

theorem list_drains_page_sequence_witness:
  "\<exists>s. list (page_server three_pages) ex_render ex_opts 0 = Some (Returned, s) \<and>
       fetched s = three_pages \<and> count s = 3 \<and>
       console s = [ConsoleLog ''1 uploads'', ConsoleLog ''2 uploads''] \<and>
       asked s = [None, Some ''a'', Some ''b'']"
  using list_drains_page_sequence [of "page_server three_pages" 0 three_pages ex_render ex_opts]
  by (simp add: page_server_def three_pages_def truthy_cursor_def ex_render_def ex_opts_def
       show_nat.simps digit_def numeral_3_eq_3)

text \<open>
  The theorem of claim C9 at a service whose only page is empty, with --json and without.
\<close>

theorem list_zero_uploads_witness:
  "list (page_server empty_space) ex_render ex_json 0 =
     Some (Returned,
           \<lparr>console = [], server = 1, count = 0, res = Some \<lparr>results = [], cursor = None\<rparr>,
            asked = [None], fetched = [\<lparr>results = [], cursor = None\<rparr>]\<rparr>) \<and>
   list (page_server empty_space) ex_render ex_opts 0 =
     Some (Returned,
           \<lparr>console =
              [ConsoleLog (CHR 0xE2 # CHR 0x81 # CHR 0x82 # '' No uploads in space''),
               ConsoleLog (CHR 0xE2 # CHR 0x81 # CHR 0x82 #
                 '' Try out `w3 up <path to files>` to upload some'')],
            server = 1, count = 0, res = Some \<lparr>results = [], cursor = None\<rparr>,
            asked = [None], fetched = [\<lparr>results = [], cursor = None\<rparr>]\<rparr>)"
  using list_zero_uploads [of "page_server empty_space" 0 "\<lparr>results = [], cursor = None\<rparr>" 1 ex_render ex_json]
        list_zero_uploads [of "page_server empty_space" 0 "\<lparr>results = [], cursor = None\<rparr>" 1 ex_render ex_opts]
  by (simp add: page_server_def empty_space_def ex_json_def ex_opts_def)

section \<open>Properties of remove\<close>

lemma removeShard_requested: "requested (removeShard client x s) = requested s @ [x]"
  by (simp add: removeShard_def split: prod.splits sum.splits)

lemma removeShard_outcomes:
  "outcomes (removeShard client x s) = outcomes s @ [settle (fst (store_remove client (server s) x))]"
  by (simp add: removeShard_def settle_def split: prod.splits sum.splits)

lemma allSettled_requested:
  "requested (allSettled_removeShard client ss s) = requested s @ ss"
  by (induction ss arbitrary: s) (simp_all add: removeShard_requested)

lemma allSettled_length:
  "length (outcomes (allSettled_removeShard client ss s)) = length (outcomes s) + length ss"
  by (induction ss arbitrary: s) (simp_all add: removeShard_outcomes)

lemma allSettled_stateless:
  "\<forall>sv x. fst (store_remove client sv x) = ans x \<Longrightarrow>
   outcomes (allSettled_removeShard client ss s) = outcomes s @ map (\<lambda>x. settle (ans x)) ss"
  by (induction ss arbitrary: s) (simp_all add: removeShard_outcomes)

lemma remove_fan_out:
  assumes "opts.shards os" and "CID_parse client (trim client rootCid) = Inr r"
    and "upload_remove client sv r = (Inr upload, sv1)"
    and "root upload \<noteq> None" and "UploadRemoveSuccess.shards upload = Some ss" and "ss \<noteq> []"
  shows "remove client rootCid os sv =
     (let s = allSettled_removeShard client ss
                ((remove_init sv1)\<lparr>console :=
                   [ConsoleLog (asterism @ '' removing '' @ show_nat (length ss) @
                      '' shard'' @ (if length ss = 1 then [] else ''s''))]\<rparr>)
      in (if list_ex is_rejected (outcomes s) then Exited 1 else Returned, s))"
  using assms by (cases "root upload") (simp_all add: remove_def Let_def)

lemma remove_skips:
  assumes "opts.shards os" and "CID_parse client (trim client rootCid) = Inr r"
    and "upload_remove client sv r = (Inr upload, sv1)"
    and "root upload = None \<or> UploadRemoveSuccess.shards upload = None
         \<or> UploadRemoveSuccess.shards upload = Some []"
  shows "remove client rootCid os sv =
     (Returned,
      \<lparr>console = [ConsoleLog (asterism @
          (if root upload = None then '' upload not found. could not determine shards to remove.''
           else '' no shards to remove.''))],
       server = sv1, requested = [], outcomes = []\<rparr>)"
  using assms by (auto simp add: remove_def remove_init_def)

lemma is_rejected_iff: "is_rejected x \<longleftrightarrow> x \<noteq> Fulfilled"
  by (cases x) simp_all

text \<open>
  Claim C3. When \<^verbatim>\<open>remove\<close> runs with --shards, the CID parses, the upload record
  is removed and the record has a root and the shards \<open>ss\<close>, then
  \<^verbatim>\<open>store.remove\<close> is called for every shard of \<open>ss\<close>, once and in order, whatever
  the other calls do; there are as many outcomes as shards; the process exits with status 1
  if and only if an outcome is a rejection, and the handler returns (status 0) if and only
  if every outcome is a fulfilment. When the answer of the service to a removal depends on
  the shard alone, the outcome at each position is the answer for the shard at that
  position.
\<close>

theorem remove_shards_one_outcome_each:
  assumes "opts.shards os" and "CID_parse client (trim client rootCid) = Inr r"
    and "upload_remove client sv r = (Inr upload, sv1)"
    and "root upload \<noteq> None" and "UploadRemoveSuccess.shards upload = Some ss"
  shows "requested (snd (remove client rootCid os sv)) = ss \<and>
         length (outcomes (snd (remove client rootCid os sv))) = length ss \<and>
         (fst (remove client rootCid os sv) = Exited 1 \<longleftrightarrow>
            (\<exists>x \<in> set (outcomes (snd (remove client rootCid os sv))). is_rejected x)) \<and>
         (fst (remove client rootCid os sv) = Returned \<longleftrightarrow>
            (\<forall>x \<in> set (outcomes (snd (remove client rootCid os sv))). x = Fulfilled)) \<and>
         ((\<forall>sv' x. fst (store_remove client sv' x) = ans x) \<longrightarrow>
            outcomes (snd (remove client rootCid os sv)) =
              map (\<lambda>x. case ans x of Inl e \<Rightarrow> Rejected e | Inr u \<Rightarrow> Fulfilled) ss)"
proof (cases "ss = []")
  case True
  with assms have "remove client rootCid os sv =
     (Returned,
      \<lparr>console = [ConsoleLog (asterism @ '' no shards to remove.'')],
       server = sv1, requested = [], outcomes = []\<rparr>)"
    using remove_skips[of os client rootCid r sv upload sv1] by auto
  with True show ?thesis by simp
next
  case False
  define s where "s = allSettled_removeShard client ss
                ((remove_init sv1)\<lparr>console :=
                   [ConsoleLog (asterism @ '' removing '' @ show_nat (length ss) @
                      '' shard'' @ (if length ss = 1 then [] else ''s''))]\<rparr>)"
  have r: "remove client rootCid os sv = (if list_ex is_rejected (outcomes s) then Exited 1 else Returned, s)"
    using remove_fan_out[OF assms False] by (simp add: Let_def s_def)
  have 1: "requested s = ss" by (simp add: s_def allSettled_requested remove_init_def)
  have 2: "length (outcomes s) = length ss" by (simp add: s_def allSettled_length remove_init_def)
  have 3: "outcomes s = map (\<lambda>x. case ans x of Inl e \<Rightarrow> Rejected e | Inr u \<Rightarrow> Fulfilled) ss"
    if "\<forall>sv' x. fst (store_remove client sv' x) = ans x"
    using allSettled_stateless[OF that, of ss] by (simp add: s_def remove_init_def settle_def)
  have 4: "list_ex is_rejected (outcomes s) \<longleftrightarrow> (\<exists>x \<in> set (outcomes s). is_rejected x)"
    by (simp add: list_ex_iff)
  have 5: "\<not> list_ex is_rejected (outcomes s) \<longleftrightarrow> (\<forall>x \<in> set (outcomes s). x = Fulfilled)"
    by (simp add: list_ex_iff is_rejected_iff)
  have a: "fst (remove client rootCid os sv) = Exited 1 \<longleftrightarrow> (\<exists>x \<in> set (outcomes s). is_rejected x)"
    unfolding r 4[symmetric] by simp
  have b: "fst (remove client rootCid os sv) = Returned \<longleftrightarrow> (\<forall>x \<in> set (outcomes s). x = Fulfilled)"
    unfolding r 5[symmetric] by simp
  have c: "snd (remove client rootCid os sv) = s" unfolding r by simp
  show ?thesis
    unfolding c using 1 2 3 a b by blast
qed


text \<open>
  Claim C8. With --shards, when the removed upload record carries an empty list of shards,
  \<^verbatim>\<open>remove\<close> returns without a call of \<^verbatim>\<open>store.remove\<close>: no request, no
  outcome, no exit status other than 0, and the service is as the removal of the upload
  record left it.
\<close>

theorem remove_empty_shard_set:
  assumes "opts.shards os" and "CID_parse client (trim client rootCid) = Inr r"
    and "upload_remove client sv r = (Inr upload, sv1)"
    and "UploadRemoveSuccess.shards upload = Some []"
  shows "fst (remove client rootCid os sv) = Returned \<and>
         requested (snd (remove client rootCid os sv)) = [] \<and>
         outcomes (snd (remove client rootCid os sv)) = [] \<and>
         server (snd (remove client rootCid os sv)) = sv1"
  using remove_skips[of os client rootCid r sv upload sv1] assms by simp

text \<open>
  Claim C10. With --shards, when the removal of the upload record succeeds but the record
  has no root, or its list of shards is undefined or empty, \<^verbatim>\<open>remove\<close> prints one
  line (that the upload was not found, or that there are no shards to remove) and returns:
  no call of \<^verbatim>\<open>store.remove\<close>, no exit status other than 0.
\<close>

theorem remove_skips_shards_without_record:
  assumes "opts.shards os" and "CID_parse client (trim client rootCid) = Inr r"
    and "upload_remove client sv r = (Inr upload, sv1)"
    and "root upload = None \<or> UploadRemoveSuccess.shards upload = None
         \<or> UploadRemoveSuccess.shards upload = Some []"
  shows "remove client rootCid os sv =
     (Returned,
      \<lparr>console = [ConsoleLog (asterism @
          (if root upload = None then '' upload not found. could not determine shards to remove.''
           else '' no shards to remove.''))],
       server = sv1, requested = [], outcomes = []\<rparr>)"
  using assms by (rule remove_skips)

text \<open>
  The theorem of claim C3 at the shards A, B, C of which B cannot be removed.
\<close>

theorem remove_shards_one_outcome_each_witness:
  "requested (snd (remove ex_remove_client '' bafyabc '' ex_shards ())) = [''A'', ''B'', ''C''] \<and>
   outcomes (snd (remove ex_remove_client '' bafyabc '' ex_shards ())) =
     [Fulfilled, Rejected not_found, Fulfilled] \<and>
   fst (remove ex_remove_client '' bafyabc '' ex_shards ()) = Exited 1"
  using remove_shards_one_outcome_each
    [of ex_shards ex_remove_client "'' bafyabc ''" "''bafyabc''" "()"
        "\<lparr>root = Some ''bafyabc'', shards = Some [''A'', ''B'', ''C'']\<rparr>" "()"
        "[''A'', ''B'', ''C'']" "\<lambda>x. if x = ''B'' then Inl not_found else Inr ()"]
  by (simp add: ex_remove_client_def ex_shards_def ex_trim_def)

text \<open>
  The theorem of claim C8 at an upload without shards.
\<close>

theorem remove_empty_shard_set_witness:
  "fst (remove ex_remove_client ''bafyempty'' ex_shards ()) = Returned \<and>
   requested (snd (remove ex_remove_client ''bafyempty'' ex_shards ())) = [] \<and>
   outcomes (snd (remove ex_remove_client ''bafyempty'' ex_shards ())) = []"
  using remove_empty_shard_set
    [of ex_shards ex_remove_client "''bafyempty''" "''bafyempty''" "()"
        "\<lparr>root = Some ''bafyempty'', shards = Some []\<rparr>" "()"]
  by (simp add: ex_remove_client_def ex_shards_def ex_trim_def)

text \<open>
  The theorem of claim C10 at a root for which the service knows no upload.
\<close>

theorem remove_skips_shards_without_record_witness:
  "remove ex_remove_client ''bafyxyz'' ex_shards () =
     (Returned,
      \<lparr>console = [ConsoleLog (asterism @ '' upload not found. could not determine shards to remove.'')],
       server = (), requested = [], outcomes = []\<rparr>)"
  using remove_skips_shards_without_record
    [of ex_shards ex_remove_client "''bafyxyz''" "''bafyxyz''" "()"
        "\<lparr>root = None, shards = None\<rparr>" "()"]
  by (simp add: ex_remove_client_def ex_shards_def ex_trim_def)

section \<open>Properties of usageReport\<close>









lemma usageReport_completion:
  "fst (usageReport lib client os now sv) =
     (case fst (getSpaceUsageReports client
          \<lparr>period_from = startOfLastMonth lib now, period_to = now\<rparr> sv) of
        None \<Rightarrow> Returned | Some e \<Rightarrow> Threw e)"
  by (simp add: usageReport_def Let_def split: prod.splits option.splits)










lemma for_consumers_append:
  "for_consumers client p a (xs @ ys) s =
     (case for_consumers client p a xs s of
        (Some e, s') \<Rightarrow> (Some e, s')
      | (None, s') \<Rightarrow> for_consumers client p a ys s')"
  by (induction xs arbitrary: s) (simp_all split: prod.splits sum.splits)

lemma for_subscriptions_append:
  "for_subscriptions client p a (xs @ ys) s =
     (case for_subscriptions client p a xs s of
        (Some e, s') \<Rightarrow> (Some e, s')
      | (None, s') \<Rightarrow> for_subscriptions client p a ys s')"
  by (induction xs arbitrary: s) (simp_all split: prod.splits option.splits)

lemma for_accounts_append:
  "for_accounts client p (xs @ ys) s =
     (case for_accounts client p xs s of
        (Some e, s') \<Rightarrow> (Some e, s')
      | (None, s') \<Rightarrow> for_accounts client p ys s')"
  by (induction xs arbitrary: s) (simp_all split: prod.splits option.splits sum.splits)

lemma made_fold: "made (fold (report_one lib os now) rs s) = made s"
  by (induction rs arbitrary: s) (simp_all add: report_one_def)

lemma usageReport_made:
  "made (snd (usageReport lib client os now sv)) =
     calls (snd (getSpaceUsageReports client
        \<lparr>period_from = startOfLastMonth lib now, period_to = now\<rparr> sv))"
  by (simp add: usageReport_def Let_def made_fold split: prod.splits option.splits)

text \<open>
  Claim C5. When the accounts before \<open>a\<close> have been traversed and the subscriptions of
  \<open>a\<close> are rejected with \<open>e\<close>, the generator throws \<open>e\<close> and the rejected call is the
  last call made. When the traversal has reached the space \<open>sp\<close> of a subscription of
  \<open>a\<close> and the report for \<open>sp\<close> is rejected with \<open>e\<close>, the generator throws \<open>e\<close>
  and the rejected call is the last call made: the spaces, subscriptions and accounts
  after it are not visited. And whenever the generator throws \<open>e\<close>,
  \<^verbatim>\<open>usageReport\<close> throws \<open>e\<close>, having made the calls of the generator and no other.
\<close>

theorem usage_traversal_fails_fast:
  "(accounts client = as1 @ a # as2 \<and>
    for_accounts client p as1 (usage_init sv) = (None, s1) \<and>
    subscription_list client (server s1) a = (Inl e, sv1)
    \<longrightarrow> getSpaceUsageReports client p sv =
          (Some e, s1\<lparr>server := sv1, calls := calls s1 @ [SubscriptionList a]\<rparr>)) \<and>
   (accounts client = as1 @ a # as2 \<and>
    for_accounts client p as1 (usage_init sv) = (None, s1) \<and>
    subscription_list client (server s1) a = (Inr (subs1 @ sub # subs2), sv2) \<and>
    for_subscriptions client p a subs1
      (s1\<lparr>server := sv2, calls := calls s1 @ [SubscriptionList a]\<rparr>) = (None, s3) \<and>
    consumers sub = sps1 @ sp # sps2 \<and>
    for_consumers client p a sps1 s3 = (None, s4) \<and>
    usage_report client (server s4) sp p = (Inl e, sv5)
    \<longrightarrow> getSpaceUsageReports client p sv =
          (Some e, s4\<lparr>server := sv5, calls := calls s4 @ [UsageReport sp]\<rparr>)) \<and>
   (fst (getSpaceUsageReports client
           \<lparr>period_from = startOfLastMonth lib now, period_to = now\<rparr> sv) = Some e
    \<longrightarrow> fst (usageReport lib client os now sv) = Threw e \<and>
        made (snd (usageReport lib client os now sv)) =
          calls (snd (getSpaceUsageReports client
             \<lparr>period_from = startOfLastMonth lib now, period_to = now\<rparr> sv)))"
proof (intro conjI impI)
  assume h: "accounts client = as1 @ a # as2 \<and>
    for_accounts client p as1 (usage_init sv) = (None, s1) \<and>
    subscription_list client (server s1) a = (Inl e, sv1)"
  then show "getSpaceUsageReports client p sv =
          (Some e, s1\<lparr>server := sv1, calls := calls s1 @ [SubscriptionList a]\<rparr>)"
    by (simp add: getSpaceUsageReports_def for_accounts_append)
next
  assume h: "accounts client = as1 @ a # as2 \<and>
    for_accounts client p as1 (usage_init sv) = (None, s1) \<and>
    subscription_list client (server s1) a = (Inr (subs1 @ sub # subs2), sv2) \<and>
    for_subscriptions client p a subs1
      (s1\<lparr>server := sv2, calls := calls s1 @ [SubscriptionList a]\<rparr>) = (None, s3) \<and>
    consumers sub = sps1 @ sp # sps2 \<and>
    for_consumers client p a sps1 s3 = (None, s4) \<and>
    usage_report client (server s4) sp p = (Inl e, sv5)"
  have c: "for_consumers client p a (consumers sub) s3 =
      (Some e, s4\<lparr>server := sv5, calls := calls s4 @ [UsageReport sp]\<rparr>)"
    using h by (simp add: for_consumers_append)
  have "for_subscriptions client p a (subs1 @ sub # subs2)
      (s1\<lparr>server := sv2, calls := calls s1 @ [SubscriptionList a]\<rparr>) =
      (Some e, s4\<lparr>server := sv5, calls := calls s4 @ [UsageReport sp]\<rparr>)"
    using h c by (simp add: for_subscriptions_append)
  then show "getSpaceUsageReports client p sv =
          (Some e, s4\<lparr>server := sv5, calls := calls s4 @ [UsageReport sp]\<rparr>)"
    using h by (simp add: getSpaceUsageReports_def for_accounts_append)
next
  assume "fst (getSpaceUsageReports client
           \<lparr>period_from = startOfLastMonth lib now, period_to = now\<rparr> sv) = Some e"
  then show "fst (usageReport lib client os now sv) = Threw e"
    by (simp add: usageReport_completion)
next
  show "made (snd (usageReport lib client os now sv)) =
          calls (snd (getSpaceUsageReports client
             \<lparr>period_from = startOfLastMonth lib now, period_to = now\<rparr> sv))"
    by (rule usageReport_made)
qed


text \<open>
  The theorem of claim C5 at a client that rejects the report for the second space of the
  first account: three calls, the records of the first space, and nothing for the second
  account.
\<close>

theorem usage_traversal_fails_fast_witness:
  "getSpaceUsageReports ex_failing_client ex_period 0 =
     (Some not_found,
      \<lparr>console = [], server = 3,
       calls = [SubscriptionList ''alice'', UsageReport ''alice-x'', UsageReport ''alice-y''],
       yielded =
         [\<lparr>provider = ''p1'', space = ''alice-x'', size' = \<lparr>initial = 0, final = 10\<rparr>,
           account = ''alice''\<rparr>,
          \<lparr>provider = ''p2'', space = ''alice-x'', size' = \<lparr>initial = 0, final = 5\<rparr>,
           account = ''alice''\<rparr>]\<rparr>) \<and>
   fst (usageReport ex_lib ex_failing_client ex_opts 100 0) = Threw not_found \<and>
   made (snd (usageReport ex_lib ex_failing_client ex_opts 100 0)) =
     [SubscriptionList ''alice'', UsageReport ''alice-x'', UsageReport ''alice-y'']"
  using usage_traversal_fails_fast
    [where client = ex_failing_client and p = ex_period and sv = 0 and e = not_found
       and ?as1.0 = "[]" and a = "''alice''" and ?as2.0 = "[''bob'']"
       and ?s1.0 = "usage_init 0"
       and ?subs1.0 = "[]" and sub = "\<lparr>consumers = [''alice-x'', ''alice-y'']\<rparr>" and ?subs2.0 = "[]"
       and ?sv2.0 = 1
       and ?s3.0 = "\<lparr>console = [], server = 1, calls = [SubscriptionList ''alice''], yielded = []\<rparr>"
       and ?sps1.0 = "[''alice-x'']" and sp = "''alice-y''" and ?sps2.0 = "[]"
       and ?s4.0 = "\<lparr>console = [], server = 2,
                     calls = [SubscriptionList ''alice'', UsageReport ''alice-x''],
                     yielded =
                       [\<lparr>provider = ''p1'', space = ''alice-x'', size' = \<lparr>initial = 0, final = 10\<rparr>,
                         account = ''alice''\<rparr>,
                        \<lparr>provider = ''p2'', space = ''alice-x'', size' = \<lparr>initial = 0, final = 5\<rparr>,
                         account = ''alice''\<rparr>]\<rparr>"
       and ?sv5.0 = 3 and lib = ex_lib and now = 100 and os = ex_opts]
  by (simp add: ex_failing_client_def ex_subscriptions_def ex_reports_def ex_period_def ex_lib_def
        usage_init_def tag_account_def numeral_3_eq_3 numeral_2_eq_2)

section \<open>Properties of createDelegation\<close>

lemma createDelegation_exports:
  assumes "currentSpace client \<noteq> None" and "DID_parse client audienceDID = Inr audience"
    and "abilities_of (can os) (spaceAccess_keys client) \<noteq> []"
    and "client_createDelegation client audience
           (abilities_of (can os) (spaceAccess_keys client)) (request_of os) = Inr blocks"
  shows "createDelegation client audienceDID os = export_archive client os blocks"
  using assms by (cases "currentSpace client") (simp_all add: createDelegation_def Let_def)

lemma put_blocks_all:
  "writer_after client (writer s) bs = Some w \<Longrightarrow>
   put_blocks client bs s = (None, s\<lparr>writer := w, writer_calls := writer_calls s @ map Put bs\<rparr>)"
  by (induction bs arbitrary: s) (auto split: prod.splits sum.splits)

lemma put_blocks_append:
  "put_blocks client (xs @ ys) s =
     (case put_blocks client xs s of
        (Some e, s') \<Rightarrow> (Some e, s')
      | (None, s') \<Rightarrow> put_blocks client ys s')"
  by (induction xs arbitrary: s) (simp_all split: prod.splits sum.splits)

lemma put_blocks_fails:
  assumes "writer_after client (writer s) bs1 = Some w1" and "writer_put client w1 b = (Inl e, w2)"
  shows "put_blocks client (bs1 @ b # bs2) s =
     (Some e, s\<lparr>writer := w2, writer_calls := writer_calls s @ map Put bs1 @ [Put b]\<rparr>)"
  using assms by (simp add: put_blocks_append put_blocks_all)

lemma put_blocks_prefix:
  "prefix (writer_calls (snd (put_blocks client bs s))) (writer_calls s @ map Put bs) \<and>
   (fst (put_blocks client bs s) = None \<longrightarrow>
      writer_calls (snd (put_blocks client bs s)) = writer_calls s @ map Put bs)"
proof (induction bs arbitrary: s)
  case Nil
  show ?case by simp
next
  case (Cons b bs)
  obtain x w where p: "writer_put client (writer s) b = (x, w)"
    by (cases "writer_put client (writer s) b")
  show ?case
  proof (cases x)
    case (Inl e)
    with p show ?thesis by simp
  next
    case (Inr u)
    with p Cons.IH[of "s\<lparr>writer := w, writer_calls := writer_calls s @ [Put b]\<rparr>"]
    show ?thesis by simp
  qed
qed

lemma put_blocks_same_writer:
  "writer_put client' = writer_put client \<Longrightarrow> put_blocks client' bs s = put_blocks client bs s"
  by (induction bs arbitrary: s) (simp_all split: prod.splits sum.splits)

lemma export_archive_same_writer:
  fixes client :: "('b, 'w) delegation_client"
  assumes "CarWriter_create client' = CarWriter_create client"
    and "writer_put client' = writer_put client" and "writer_close client' = writer_close client"
  shows "fst (export_archive client' os' bs) = fst (export_archive client os bs) \<and>
         writer (snd (export_archive client' os' bs)) = writer (snd (export_archive client os bs)) \<and>
         writer_calls (snd (export_archive client' os' bs)) =
           writer_calls (snd (export_archive client os bs))"
proof -
  have same: "fst (put_blocks client bs s') = fst (put_blocks client bs s) \<and>
        writer (snd (put_blocks client bs s')) = writer (snd (put_blocks client bs s)) \<and>
        writer_calls (snd (put_blocks client bs s')) = writer_calls (snd (put_blocks client bs s))"
    if "writer s' = writer s" and "writer_calls s' = writer_calls s" for s s'
    using that
  proof (induction bs arbitrary: s s')
    case Nil
    then show ?case by simp
  next
    case (Cons b bs)
    obtain x w where p: "writer_put client (writer s) b = (x, w)"
      by (cases "writer_put client (writer s) b")
    show ?case
    proof (cases x)
      case (Inl e)
      with p Cons.prems show ?thesis by simp
    next
      case (Inr u)
      have "fst (put_blocks client bs (s'\<lparr>writer := w, writer_calls := writer_calls s' @ [Put b]\<rparr>)) =
            fst (put_blocks client bs (s\<lparr>writer := w, writer_calls := writer_calls s @ [Put b]\<rparr>)) \<and>
          writer (snd (put_blocks client bs (s'\<lparr>writer := w, writer_calls := writer_calls s' @ [Put b]\<rparr>))) =
            writer (snd (put_blocks client bs (s\<lparr>writer := w, writer_calls := writer_calls s @ [Put b]\<rparr>))) \<and>
          writer_calls (snd (put_blocks client bs (s'\<lparr>writer := w, writer_calls := writer_calls s' @ [Put b]\<rparr>))) =
            writer_calls (snd (put_blocks client bs (s\<lparr>writer := w, writer_calls := writer_calls s @ [Put b]\<rparr>)))"
        by (rule Cons.IH) (use Cons.prems in simp_all)
      with p Inr Cons.prems show ?thesis by simp
    qed
  qed
  let ?s0 = "\<lparr>printed = [], writer = CarWriter_create client,
      dest = Some (case output' os of None \<Rightarrow> Stdout
                   | Some path \<Rightarrow> if path \<noteq> [] then File path else Stdout),
      writer_calls = []\<rparr> :: ('b, 'w) delegation_state"
  let ?s0' = "\<lparr>printed = [], writer = CarWriter_create client,
      dest = Some (case output' os' of None \<Rightarrow> Stdout
                   | Some path \<Rightarrow> if path \<noteq> [] then File path else Stdout),
      writer_calls = []\<rparr> :: ('b, 'w) delegation_state"
  have s: "fst (put_blocks client bs ?s0') = fst (put_blocks client bs ?s0) \<and>
        writer (snd (put_blocks client bs ?s0')) = writer (snd (put_blocks client bs ?s0)) \<and>
        writer_calls (snd (put_blocks client bs ?s0')) = writer_calls (snd (put_blocks client bs ?s0))"
    by (rule same) simp_all
  obtain r1 t1 where 1: "put_blocks client bs ?s0 = (r1, t1)" by (cases "put_blocks client bs ?s0")
  obtain r2 t2 where 2: "put_blocks client bs ?s0' = (r2, t2)" by (cases "put_blocks client bs ?s0'")
  from s 1 2 have e: "r2 = r1" "writer t2 = writer t1" "writer_calls t2 = writer_calls t1" by simp_all
  show ?thesis
    using 1 2 e assms
    by (simp add: export_archive_def put_blocks_same_writer[OF assms(2)] Let_def
          split: option.splits prod.splits sum.splits)
qed


lemma export_archive_all:
  assumes "writer_after client (CarWriter_create client) blocks = Some w"
  shows "writer_calls (snd (export_archive client os blocks)) = map Put blocks @ [Close] \<and>
         fst (export_archive client os blocks) =
           (case fst (writer_close client w) of Inl e \<Rightarrow> Threw e | Inr u \<Rightarrow> Returned) \<and>
         writer (snd (export_archive client os blocks)) = snd (writer_close client w)"
  using assms
  by (simp add: export_archive_def Let_def put_blocks_all split: prod.splits sum.splits)

lemma export_archive_fails:
  assumes "writer_after client (CarWriter_create client) bs1 = Some w1"
    and "writer_put client w1 b = (Inl e, w2)"
  shows "export_archive client os (bs1 @ b # bs2) =
     (Threw e,
      \<lparr>printed = [], writer = w2,
       dest = Some (case output' os of None \<Rightarrow> Stdout
                    | Some path \<Rightarrow> if path \<noteq> [] then File path else Stdout),
       writer_calls = map Put bs1 @ [Put b]\<rparr>)"
  using assms by (simp add: export_archive_def Let_def put_blocks_fails)

lemma export_archive_prefix:
  "prefix (writer_calls (snd (export_archive client os blocks))) (map Put blocks @ [Close]) \<and>
   (fst (export_archive client os blocks) = Returned \<longrightarrow>
      writer_calls (snd (export_archive client os blocks)) = map Put blocks @ [Close])"
proof -
  let ?s0 = "\<lparr>printed = [], writer = CarWriter_create client,
      dest = Some (case output' os of None \<Rightarrow> Stdout
                   | Some path \<Rightarrow> if path \<noteq> [] then File path else Stdout),
      writer_calls = []\<rparr>"
  obtain x t where p: "put_blocks client blocks ?s0 = (x, t)"
    by (cases "put_blocks client blocks ?s0")
  have pre: "prefix (writer_calls t) (map Put blocks)"
    and full: "x = None \<longrightarrow> writer_calls t = map Put blocks"
    using put_blocks_prefix[of client blocks ?s0] p by simp_all
  show ?thesis
  proof (cases x)
    case None
    with p full show ?thesis
      by (simp add: export_archive_def Let_def split: prod.splits sum.splits)
  next
    case (Some e)
    with p pre show ?thesis
      by (simp add: export_archive_def Let_def prefix_def) (metis append.assoc)
  qed
qed

text \<open>
  Claim C6, as the code has it. Let \<^verbatim>\<open>createDelegation\<close> reach line 361 with the
  blocks of the delegation. When every \<^verbatim>\<open>put\<close> resolves, the calls on the writer
  are the puts followed by \<^verbatim>\<open>close\<close>, and the function returns, or throws what
  \<^verbatim>\<open>close\<close> rejected with. When a \<^verbatim>\<open>put\<close> rejects with \<open>e\<close>, the function
  throws \<open>e\<close>, that put is the last call on the writer, and \<^verbatim>\<open>close\<close> is never
  called.
\<close>

theorem createDelegation_closes_writer_only_on_success:
  assumes "currentSpace client \<noteq> None" and "DID_parse client audienceDID = Inr audience"
    and "abilities_of (can os) (spaceAccess_keys client) \<noteq> []"
    and "client_createDelegation client audience
           (abilities_of (can os) (spaceAccess_keys client)) (request_of os) = Inr blocks"
  shows "(writer_after client (CarWriter_create client) blocks = Some w \<longrightarrow>
            writer_calls (snd (createDelegation client audienceDID os)) = map Put blocks @ [Close] \<and>
            fst (createDelegation client audienceDID os) =
              (case fst (writer_close client w) of Inl e \<Rightarrow> Threw e | Inr u \<Rightarrow> Returned)) \<and>
         (blocks = bs1 @ b # bs2 \<and>
          writer_after client (CarWriter_create client) bs1 = Some w1 \<and>
          writer_put client w1 b = (Inl e, w2) \<longrightarrow>
            fst (createDelegation client audienceDID os) = Threw e \<and>
            writer_calls (snd (createDelegation client audienceDID os)) = map Put bs1 @ [Put b] \<and>
            Close \<notin> set (writer_calls (snd (createDelegation client audienceDID os))) \<and>
            writer (snd (createDelegation client audienceDID os)) = w2)"
proof -
  have c: "createDelegation client audienceDID os = export_archive client os blocks"
    using assms by (rule createDelegation_exports)
  have 1: "writer_calls (snd (export_archive client os blocks)) = map Put blocks @ [Close] \<and>
            fst (export_archive client os blocks) =
              (case fst (writer_close client w) of Inl e \<Rightarrow> Threw e | Inr u \<Rightarrow> Returned)"
    if "writer_after client (CarWriter_create client) blocks = Some w"
    using export_archive_all[OF that, of os] by simp
  have 2: "fst (export_archive client os blocks) = Threw e \<and>
            writer_calls (snd (export_archive client os blocks)) = map Put bs1 @ [Put b] \<and>
            Close \<notin> set (writer_calls (snd (export_archive client os blocks))) \<and>
            writer (snd (export_archive client os blocks)) = w2"
    if "blocks = bs1 @ b # bs2 \<and>
          writer_after client (CarWriter_create client) bs1 = Some w1 \<and>
          writer_put client w1 b = (Inl e, w2)"
    using that export_archive_fails[of client bs1 w1 b e w2 os bs2] by auto
  from 1 2 show ?thesis unfolding c by blast
qed

text \<open>
  Claim C6 as stated fails: the spec has the writer closed on every exit path. Here the
  second of three blocks is rejected; the function throws and the writer has seen two puts
  and no close.
\<close>

theorem createDelegation_leaves_writer_open_on_failed_put:
  "createDelegation ex_delegation_client ''did:key:bob'' ex_bad_opts =
     (Threw not_found,
      \<lparr>printed = [], writer = ''a'', dest = Some (File ''out.car''),
       writer_calls = [Put ''a'', Put ''bad'']\<rparr>)"
  by (simp add: createDelegation_def export_archive_def ex_delegation_client_def ex_bad_opts_def
        abilities_of_def request_of_def truthy_string_def Let_def)

text \<open>
  The theorem of claim C6 at a run in which both puts resolve and at a run in which the
  only put rejects.
\<close>

theorem createDelegation_closes_writer_only_on_success_witness:
  "writer_calls (snd (createDelegation ex_delegation_client ''did:key:bob'' ex_delegation_opts)) =
     [Put ''store/add'', Put ''upload/add'', Close] \<and>
   fst (createDelegation ex_delegation_client ''did:key:bob'' ex_delegation_opts) = Returned \<and>
   fst (createDelegation ex_delegation_client ''did:key:bob'' ex_only_bad_opts) = Threw not_found \<and>
   writer_calls (snd (createDelegation ex_delegation_client ''did:key:bob'' ex_only_bad_opts)) =
     [Put ''bad'']"
  using createDelegation_closes_writer_only_on_success
      [where client = ex_delegation_client and audienceDID = "''did:key:bob''"
         and os = ex_delegation_opts and audience = "''did:key:bob''"
         and blocks = "[''store/add'', ''upload/add'']" and w = "''store/addupload/add''"
         and ?bs1.0 = "[]" and b = "''store/add''" and ?bs2.0 = "[''upload/add'']"
         and ?w1.0 = "[]"]
    createDelegation_closes_writer_only_on_success
      [where client = ex_delegation_client and audienceDID = "''did:key:bob''"
         and os = ex_only_bad_opts and audience = "''did:key:bob''"
         and blocks = "[''bad'']" and ?bs1.0 = "[]" and b = "''bad''" and ?bs2.0 = "[]"
         and ?w1.0 = "[]" and ?w2.0 = "[]" and e = not_found]
  by (simp add: ex_delegation_client_def ex_delegation_opts_def ex_only_bad_opts_def
        abilities_of_def request_of_def truthy_string_def)

lemma put_blocks_resolved:
  "fst (put_blocks client bs s) = None \<Longrightarrow>
   writer_after client (writer s) bs = Some (writer (snd (put_blocks client bs s)))"
proof (induction bs arbitrary: s)
  case Nil
  then show ?case by simp
next
  case (Cons b bs)
  obtain x w where p: "writer_put client (writer s) b = (x, w)"
    by (cases "writer_put client (writer s) b")
  show ?case
  proof (cases x)
    case (Inl e)
    with p Cons.prems show ?thesis by simp
  next
    case (Inr u)
    with p Cons.prems
    have "fst (put_blocks client bs (s\<lparr>writer := w, writer_calls := writer_calls s @ [Put b]\<rparr>)) = None"
      by simp
    from Cons.IH[OF this] show ?thesis using p Inr by simp
  qed
qed

lemma export_archive_returned:
  assumes "fst (export_archive client os blocks) = Returned"
  shows "\<exists>w. writer_after client (CarWriter_create client) blocks = Some w \<and>
             writer_close client w = (Inr (), writer (snd (export_archive client os blocks)))"
proof -
  let ?s0 = "\<lparr>printed = [], writer = CarWriter_create client,
      dest = Some (case output' os of None \<Rightarrow> Stdout
                   | Some path \<Rightarrow> if path \<noteq> [] then File path else Stdout),
      writer_calls = []\<rparr>"
  obtain x t where p: "put_blocks client blocks ?s0 = (x, t)"
    by (cases "put_blocks client blocks ?s0")
  from assms p have x: "x = None"
    by (cases x) (simp_all add: export_archive_def Let_def)
  have w: "writer_after client (CarWriter_create client) blocks = Some (writer t)"
    using put_blocks_resolved[of client blocks ?s0] p x by simp
  obtain y w' where c: "writer_close client (writer t) = (y, w')"
    by (cases "writer_close client (writer t)")
  from assms p x c have "y = Inr ()" and "writer (snd (export_archive client os blocks)) = w'"
    by (cases y; simp add: export_archive_def Let_def)+
  with w c show ?thesis by auto
qed

lemma out_after_puts:
  assumes "\<forall>w b w'. writer_put client w b = (Inr (), w') \<longrightarrow>
             CarWriter_out client w' = CarWriter_out client w @ encode b"
  shows "writer_after client w bs = Some w' \<Longrightarrow>
         CarWriter_out client w' = CarWriter_out client w @ concat (map encode bs)"
proof (induction bs arbitrary: w)
  case Nil
  then show ?case by simp
next
  case (Cons b bs)
  obtain x w1 where p: "writer_put client w b = (x, w1)"
    by (cases "writer_put client w b")
  with Cons.prems have x: "x = Inr ()" and r: "writer_after client w1 bs = Some w'"
    by (cases x; simp)+
  from assms p x have "CarWriter_out client w1 = CarWriter_out client w @ encode b" by simp
  with Cons.IH[OF r] show ?case by simp
qed

text \<open>
  Claim C7. Let \<^verbatim>\<open>createDelegation\<close> reach line 361 with the blocks of the
  delegation. Each \<^verbatim>\<open>put\<close> acts on the writer that the put before has left, in the
  order of the blocks. When every put resolves, the calls on the writer are one put per
  block in order and then \<^verbatim>\<open>close\<close>, and the writer is what \<^verbatim>\<open>close\<close> makes of
  the writer after the last put. When a put rejects, it is the last call: no later block is
  put and the writer is not closed, so no put starts before the put before it has settled.
  In every case the calls are a prefix of the puts in order followed by \<^verbatim>\<open>close\<close>.
  When the writer puts a header on its output at creation, the encoding of a block at each
  put and a trailer at \<^verbatim>\<open>close\<close>, and the function returns, the bytes on the output
  are the header, the encodings of the blocks in order, and the trailer: they depend on the
  blocks alone. A second run with the same writer operations and the same blocks (whatever
  its audience, options or destination) ends the same way, with the same calls and the
  same writer.
\<close>

theorem createDelegation_writes_blocks_in_order:
  assumes "currentSpace client \<noteq> None" and "DID_parse client audienceDID = Inr audience"
    and "abilities_of (can os) (spaceAccess_keys client) \<noteq> []"
    and "client_createDelegation client audience
           (abilities_of (can os) (spaceAccess_keys client)) (request_of os) = Inr blocks"
  shows "(writer_after client (CarWriter_create client) blocks = Some w \<longrightarrow>
            writer_calls (snd (createDelegation client audienceDID os)) = map Put blocks @ [Close] \<and>
            writer (snd (createDelegation client audienceDID os)) = snd (writer_close client w)) \<and>
         (blocks = bs1 @ b # bs2 \<and>
          writer_after client (CarWriter_create client) bs1 = Some w1 \<and>
          writer_put client w1 b = (Inl e, w2) \<longrightarrow>
            writer_calls (snd (createDelegation client audienceDID os)) = map Put bs1 @ [Put b] \<and>
            writer (snd (createDelegation client audienceDID os)) = w2 \<and>
            fst (createDelegation client audienceDID os) = Threw e) \<and>
         prefix (writer_calls (snd (createDelegation client audienceDID os)))
           (map Put blocks @ [Close]) \<and>
         (fst (createDelegation client audienceDID os) = Returned \<longrightarrow>
            writer_calls (snd (createDelegation client audienceDID os)) = map Put blocks @ [Close]) \<and>
         (CarWriter_out client (CarWriter_create client) = header \<and>
          (\<forall>v b' v'. writer_put client v b' = (Inr (), v') \<longrightarrow>
             CarWriter_out client v' = CarWriter_out client v @ encode b') \<and>
          (\<forall>v v'. writer_close client v = (Inr (), v') \<longrightarrow>
             CarWriter_out client v' = CarWriter_out client v @ trailer) \<and>
          fst (createDelegation client audienceDID os) = Returned \<longrightarrow>
            CarWriter_out client (writer (snd (createDelegation client audienceDID os))) =
              header @ concat (map encode blocks) @ trailer) \<and>
         (currentSpace client' \<noteq> None \<and> DID_parse client' audienceDID' = Inr audience' \<and>
          abilities_of (can os') (spaceAccess_keys client') \<noteq> [] \<and>
          client_createDelegation client' audience'
            (abilities_of (can os') (spaceAccess_keys client')) (request_of os') = Inr blocks \<and>
          CarWriter_create client' = CarWriter_create client \<and>
          writer_put client' = writer_put client \<and> writer_close client' = writer_close client \<longrightarrow>
            fst (createDelegation client' audienceDID' os') = fst (createDelegation client audienceDID os) \<and>
            writer (snd (createDelegation client' audienceDID' os')) =
              writer (snd (createDelegation client audienceDID os)) \<and>
            writer_calls (snd (createDelegation client' audienceDID' os')) =
              writer_calls (snd (createDelegation client audienceDID os)))"
proof -
  have c: "createDelegation client audienceDID os = export_archive client os blocks"
    using assms by (rule createDelegation_exports)
  have 1: "prefix (writer_calls (snd (export_archive client os blocks))) (map Put blocks @ [Close])"
    and 2: "fst (export_archive client os blocks) = Returned \<longrightarrow>
      writer_calls (snd (export_archive client os blocks)) = map Put blocks @ [Close]"
    using export_archive_prefix[of client os blocks] by simp_all
  have 3: "writer_calls (snd (export_archive client os blocks)) = map Put blocks @ [Close] \<and>
            writer (snd (export_archive client os blocks)) = snd (writer_close client w)"
    if "writer_after client (CarWriter_create client) blocks = Some w"
    using export_archive_all[OF that, of os] by simp
  have 4: "fst (createDelegation client' audienceDID' os') = fst (export_archive client os blocks) \<and>
            writer (snd (createDelegation client' audienceDID' os')) =
              writer (snd (export_archive client os blocks)) \<and>
            writer_calls (snd (createDelegation client' audienceDID' os')) =
              writer_calls (snd (export_archive client os blocks))"
    if h: "currentSpace client' \<noteq> None \<and> DID_parse client' audienceDID' = Inr audience' \<and>
          abilities_of (can os') (spaceAccess_keys client') \<noteq> [] \<and>
          client_createDelegation client' audience'
            (abilities_of (can os') (spaceAccess_keys client')) (request_of os') = Inr blocks \<and>
          CarWriter_create client' = CarWriter_create client \<and>
          writer_put client' = writer_put client \<and> writer_close client' = writer_close client"
  proof -
    have "createDelegation client' audienceDID' os' = export_archive client' os' blocks"
      using h createDelegation_exports[of client' audienceDID' audience' os' blocks] by blast
    then show ?thesis
      using export_archive_same_writer[of client' client os' blocks os] h by simp
  qed
  have 5: "writer_calls (snd (export_archive client os blocks)) = map Put bs1 @ [Put b] \<and>
            writer (snd (export_archive client os blocks)) = w2 \<and>
            fst (export_archive client os blocks) = Threw e"
    if "blocks = bs1 @ b # bs2 \<and>
          writer_after client (CarWriter_create client) bs1 = Some w1 \<and>
          writer_put client w1 b = (Inl e, w2)"
    using that export_archive_fails[of client bs1 w1 b e w2 os bs2] by auto
  have 6: "CarWriter_out client (writer (snd (export_archive client os blocks))) =
              header @ concat (map encode blocks) @ trailer"
    if h: "CarWriter_out client (CarWriter_create client) = header \<and>
          (\<forall>v b' v'. writer_put client v b' = (Inr (), v') \<longrightarrow>
             CarWriter_out client v' = CarWriter_out client v @ encode b') \<and>
          (\<forall>v v'. writer_close client v = (Inr (), v') \<longrightarrow>
             CarWriter_out client v' = CarWriter_out client v @ trailer) \<and>
          fst (export_archive client os blocks) = Returned"
  proof -
    from h export_archive_returned[of client os blocks]
    obtain v where v: "writer_after client (CarWriter_create client) blocks = Some v"
      and cl: "writer_close client v = (Inr (), writer (snd (export_archive client os blocks)))"
      by blast
    have "CarWriter_out client v =
        CarWriter_out client (CarWriter_create client) @ concat (map encode blocks)"
      using h v by (intro out_after_puts) blast+
    moreover have "CarWriter_out client (writer (snd (export_archive client os blocks))) =
        CarWriter_out client v @ trailer"
      using h cl by blast
    ultimately show ?thesis using h by simp
  qed
  from 1 2 3 4 5 6 show ?thesis unfolding c by blast
qed

text \<open>
  The theorem of claim C7 at two runs with the same blocks, one to the standard output and
  one to a file for another audience, and at a run in which the second of three puts
  rejects.
\<close>

theorem createDelegation_writes_blocks_in_order_witness:
  "writer_calls (snd (createDelegation ex_delegation_client ''did:web:bob'' ex_delegation_opts)) =
     [Put ''store/add'', Put ''upload/add'', Close] \<and>
   writer (snd (createDelegation ex_delegation_client ''did:web:bob'' ex_delegation_opts)) =
     ''store/addupload/add.'' \<and>
   CarWriter_out ex_delegation_client
     (writer (snd (createDelegation ex_delegation_client ''did:web:bob'' ex_delegation_opts))) =
     ''car:store/addupload/add.'' \<and>
   writer (snd (createDelegation ex_delegation_client ''did:web:carol'' ex_file_opts)) =
     writer (snd (createDelegation ex_delegation_client ''did:web:bob'' ex_delegation_opts)) \<and>
   writer_calls (snd (createDelegation ex_delegation_client ''did:web:bob'' ex_bad_opts)) =
     [Put ''a'', Put ''bad'']"
proof -
  note t = createDelegation_writes_blocks_in_order
      [where client = ex_delegation_client and audienceDID = "''did:web:bob''"
         and audience = "''did:web:bob''"]
  have good: "writer_after ex_delegation_client (CarWriter_create ex_delegation_client)
      [''store/add'', ''upload/add''] = Some ''store/addupload/add''"
    by (simp add: ex_delegation_client_def)
  have enc: "CarWriter_out ex_delegation_client (CarWriter_create ex_delegation_client) = ''car:'' \<and>
      (\<forall>v b' v'. writer_put ex_delegation_client v b' = (Inr (), v') \<longrightarrow>
         CarWriter_out ex_delegation_client v' = CarWriter_out ex_delegation_client v @ b') \<and>
      (\<forall>v v'. writer_close ex_delegation_client v = (Inr (), v') \<longrightarrow>
         CarWriter_out ex_delegation_client v' = CarWriter_out ex_delegation_client v @ ''.'')"
    by (auto simp add: ex_delegation_client_def split: if_splits)
  have 1: "(writer_calls (snd (createDelegation ex_delegation_client ''did:web:bob'' ex_delegation_opts)) =
        [Put ''store/add'', Put ''upload/add'', Close] \<and>
      writer (snd (createDelegation ex_delegation_client ''did:web:bob'' ex_delegation_opts)) =
        ''store/addupload/add.'') \<and>
      fst (createDelegation ex_delegation_client ''did:web:bob'' ex_delegation_opts) = Returned"
    using t[where os = ex_delegation_opts and blocks = "[''store/add'', ''upload/add'']"
              and w = "''store/addupload/add''"] good
    by (simp add: ex_delegation_client_def ex_delegation_opts_def abilities_of_def request_of_def
          truthy_string_def createDelegation_def export_archive_def)
  have 2: "CarWriter_out ex_delegation_client
     (writer (snd (createDelegation ex_delegation_client ''did:web:bob'' ex_delegation_opts))) =
     ''car:'' @ concat (map (\<lambda>x. x) [''store/add'', ''upload/add'']) @ ''.''"
  proof -
    have pre: "currentSpace ex_delegation_client \<noteq> None"
      "DID_parse ex_delegation_client ''did:web:bob'' = Inr ''did:web:bob''"
      "abilities_of (can ex_delegation_opts) (spaceAccess_keys ex_delegation_client) \<noteq> []"
      "client_createDelegation ex_delegation_client ''did:web:bob''
         (abilities_of (can ex_delegation_opts) (spaceAccess_keys ex_delegation_client))
         (request_of ex_delegation_opts) = Inr [''store/add'', ''upload/add'']"
      by (simp_all add: ex_delegation_client_def ex_delegation_opts_def abilities_of_def)
    from createDelegation_writes_blocks_in_order[OF pre, where header = "''car:''"
        and encode = "\<lambda>x. x" and trailer = "''.''"] enc 1
    show ?thesis by blast
  qed
  have 3: "writer (snd (createDelegation ex_delegation_client ''did:web:carol'' ex_file_opts)) =
     writer (snd (createDelegation ex_delegation_client ''did:web:bob'' ex_delegation_opts))"
    using t[where os = ex_delegation_opts and blocks = "[''store/add'', ''upload/add'']"
              and client' = ex_delegation_client and audienceDID' = "''did:web:carol''"
              and os' = ex_file_opts and audience' = "''did:web:carol''"]
    by (simp add: ex_delegation_client_def ex_delegation_opts_def ex_file_opts_def
          abilities_of_def request_of_def truthy_string_def)
  have 4: "writer_calls (snd (createDelegation ex_delegation_client ''did:web:bob'' ex_bad_opts)) =
     [Put ''a'', Put ''bad'']"
    using t[where os = ex_bad_opts and blocks = "[''a'', ''bad'', ''c'']"
              and ?bs1.0 = "[''a'']" and b = "''bad''" and ?bs2.0 = "[''c'']"
              and ?w1.0 = "''a''" and ?w2.0 = "''a''" and e = not_found]
    by (simp add: ex_delegation_client_def ex_bad_opts_def abilities_of_def request_of_def
          truthy_string_def)
  from 1 2 3 4 show ?thesis by simp
qed

end
